theory Spec2Isabelle
  imports Main
begin

section \<open>Values shared by the store, the auth service and the handlers\<close>

text \<open>
  A Go \<open>time.Time\<close> is an instant, written here as its count of nanoseconds since the
  Unix epoch; a \<open>time.Duration\<close> is a count of nanoseconds. Decoded byte slices are lists
  of byte values; Go strings stay strings.
\<close>

type_synonym time = int
type_synonym duration = int
type_synonym bytes = "nat list"

definition second :: int where
  "second = 1000000000"

text \<open>The zero \<open>time.Time\<close> (January 1 of year 1, UTC), the value of an unset field.\<close>

definition zero_time :: time where
  "zero_time = - 62135596800 * second"

definition IsZero :: "time \<Rightarrow> bool" where
  "IsZero t = (t = zero_time)"

text \<open>
  \<open>t.UTC().Format("2006-01-02 15:04:05")\<close> and SQLite's \<open>datetime('now')\<close> both give the
  text \<open>YYYY-MM-DD HH:MM:SS\<close> of an instant: the fraction of the second is dropped. Such a
  text is represented by the count of whole seconds it denotes; for four-digit years two
  texts compare (as SQLite compares them, byte by byte) the way their counts do. Reading
  the column back into a \<open>time.Time\<close> gives the instant at the start of that second.
\<close>

definition sqlite_datetime :: "time \<Rightarrow> int" where
  "sqlite_datetime t = t div second"

definition scan_datetime :: "int \<Rightarrow> time" where
  "scan_datetime n = n * second"

subsection \<open>internal/store/store.go: the records\<close>

record Account =
  acc_ID :: string
  acc_DisplayName :: string
  acc_Bio :: string
  acc_HomepageURL :: string
  acc_CreatedAt :: time

record AccountKey =
  key_ID :: string
  key_AccountID :: string
  key_Algorithm :: string
  key_PublicKey :: string
  key_CreatedAt :: time
  key_RevokedAt :: "time option"

record Challenge =
  ch_ID :: string
  ch_AgentID :: string
  ch_Algorithm :: string
  ch_Challenge :: string
  ch_ExpiresAt :: time

record Token =
  tok_ID :: string
  tok_AccountID :: string
  tok_KeyID :: string
  tok_AgentID :: string
  tok_Token :: string
  tok_ExpiresAt :: time

subsection \<open>Errors\<close>

text \<open>
  The five error values of the auth package, the error \<open>verifySignature\<close> builds with
  \<open>fmt.Errorf\<close> for secp256k1, the errors the store hands back (a violated constraint of
  the schema, \<open>sql.ErrNoRows\<close>), a failing \<open>rand.Read\<close>, and the run-time panic of a slice
  expression out of range.
\<close>

datatype err =
    ErrInvalidAlgorithm
  | ErrInvalidPublicKey
  | ErrInvalidSignature
  | ErrChallengeExpired
  | ErrChallengeNotFound
  | ErrSecp256k1NotImplemented
  | ErrConstraint
  | ErrNoRows
  | ErrRandRead
  | PanicSliceBounds

subsection \<open>What a call reads from outside\<close>

text \<open>
  Every reading of a clock, of the random source and of the UUID generator that one call
  makes is an input of the model, one field per place of the source that reads it.
\<close>

record env =
  sql_now_token :: time      \<comment> \<open>the instant of \<open>datetime('now')\<close> in \<open>GetToken\<close>\<close>
  sql_now_challenge :: time  \<comment> \<open>the instant of \<open>datetime('now')\<close> in \<open>GetChallenge\<close>\<close>
  sql_now_sweep :: time      \<comment> \<open>the instant of \<open>datetime('now')\<close> in \<open>DeleteExpiredTokens\<close>\<close>
  now_check :: time          \<comment> \<open>\<open>time.Now()\<close> of the \<open>After\<close> test in \<open>VerifyAndCreateToken\<close>\<close>
  now_issue :: time          \<comment> \<open>\<open>time.Now()\<close> from which a new expiry is computed\<close>
  now_account :: time        \<comment> \<open>\<open>time.Now()\<close> in the store's \<open>CreateAccount\<close>\<close>
  now_key :: time            \<comment> \<open>\<open>time.Now()\<close> in the store's \<open>CreateAccountKey\<close>\<close>
  now_revoke :: time         \<comment> \<open>\<open>time.Now()\<close> in the store's \<open>RevokeAccountKey\<close>\<close>
  rand_read :: "bytes option" \<comment> \<open>the 32 bytes of \<open>rand.Read\<close>, or its failure\<close>
  uuid_svc :: string         \<comment> \<open>\<open>uuid.New().String()\<close> in the auth service\<close>
  uuid_row :: string         \<comment> \<open>the same in the store's \<open>CreateChallenge\<close> and \<open>CreateToken\<close>\<close>
  uuid_account :: string     \<comment> \<open>the same in the store's \<open>CreateAccount\<close>\<close>
  uuid_key :: string         \<comment> \<open>the same in the store's \<open>CreateAccountKey\<close>\<close>

subsection \<open>The library functions the auth service calls\<close>

text \<open>
  The decoders and the signature checks of Go's standard library are parameters: every
  theorem below that mentions \<open>L\<close> holds for whatever they compute.
\<close>

datatype pkix_key = RSAPublicKey nat nat | OtherPublicKey

record lib =
  base64_StdDecode :: "string \<Rightarrow> bytes option"
  base64_URLEncode :: "bytes \<Rightarrow> string"
  ed25519_Verify :: "bytes \<Rightarrow> string \<Rightarrow> bytes \<Rightarrow> bool"
  pem_Decode :: "string \<Rightarrow> bytes option"
  x509_ParsePKIXPublicKey :: "bytes \<Rightarrow> pkix_key option"
  sha256_Sum256 :: "string \<Rightarrow> bytes"
  rsa_VerifyPSS :: "nat \<times> nat \<Rightarrow> bytes \<Rightarrow> bytes \<Rightarrow> bool"
  rsa_VerifyPKCS1v15 :: "nat \<times> nat \<Rightarrow> bytes \<Rightarrow> bytes \<Rightarrow> bool"

section \<open>internal/store/sqlite.go\<close>

subsection \<open>The tables\<close>

text \<open>
  A row of \<open>account_keys\<close> has the fields of \<open>AccountKey\<close>. The nullable text columns are
  \<open>string option\<close>; the two \<open>expires_at\<close> columns hold the text written by
  \<open>CreateChallenge\<close> and \<open>CreateToken\<close>.
\<close>

record account_row =
  ar_id :: string
  ar_display_name :: string
  ar_bio :: "string option"
  ar_homepage_url :: "string option"
  ar_created_at :: time

record challenge_row =
  cr_id :: string
  cr_agent_id :: string
  cr_algorithm :: string
  cr_challenge :: string
  cr_expires_at :: int

record token_row =
  tr_id :: string
  tr_account_id :: "string option"
  tr_key_id :: string
  tr_agent_id :: string
  tr_token :: string
  tr_expires_at :: int

record db =
  t_accounts :: "account_row list"
  t_account_keys :: "AccountKey list"
  t_challenges :: "challenge_row list"
  t_tokens :: "token_row list"

definition empty_db :: db where
  "empty_db = \<lparr>t_accounts = [], t_account_keys = [], t_challenges = [], t_tokens = []\<rparr>"

definition nullString :: "string \<Rightarrow> string option" where
  "nullString s = (if s = [] then None else Some s)"

definition NullString_String :: "string option \<Rightarrow> string" where
  "NullString_String n = (case n of None \<Rightarrow> [] | Some s \<Rightarrow> s)"

subsection \<open>Accounts\<close>

definition account_to_row :: "Account \<Rightarrow> account_row" where
  "account_to_row a =
     \<lparr>ar_id = acc_ID a, ar_display_name = acc_DisplayName a, ar_bio = nullString (acc_Bio a),
      ar_homepage_url = nullString (acc_HomepageURL a), ar_created_at = acc_CreatedAt a\<rparr>"

definition account_of_row :: "account_row \<Rightarrow> Account" where
  "account_of_row r =
     \<lparr>acc_ID = ar_id r, acc_DisplayName = ar_display_name r,
      acc_Bio = NullString_String (ar_bio r),
      acc_HomepageURL = NullString_String (ar_homepage_url r),
      acc_CreatedAt = ar_created_at r\<rparr>"

text \<open>
  \<open>CreateAccount\<close> fills in an empty id and an unset creation time, then inserts; the
  insert fails when the primary key is taken. The caller reads the id from the struct
  afterwards, so the filled-in struct is returned with the new state.
\<close>

definition store_CreateAccount :: "env \<Rightarrow> db \<Rightarrow> Account \<Rightarrow> err + (Account \<times> db)" where
  "store_CreateAccount e s account =
     (let a1 = (if acc_ID account = [] then account\<lparr>acc_ID := uuid_account e\<rparr> else account);
          a2 = (if IsZero (acc_CreatedAt a1) then a1\<lparr>acc_CreatedAt := now_account e\<rparr> else a1)
      in if acc_ID a2 \<in> set (map ar_id (t_accounts s)) then Inl ErrConstraint
         else Inr (a2, s\<lparr>t_accounts := t_accounts s @ [account_to_row a2]\<rparr>))"

text \<open>\<open>GetAccount\<close> passes every error of \<open>Scan\<close> on, \<open>sql.ErrNoRows\<close> included.\<close>

definition store_GetAccount :: "db \<Rightarrow> string \<Rightarrow> err + Account option" where
  "store_GetAccount s ident =
     (case find (\<lambda>r. ar_id r = ident) (t_accounts s) of
        None \<Rightarrow> Inl ErrNoRows
      | Some r \<Rightarrow> Inr (Some (account_of_row r)))"

subsection \<open>Account keys\<close>

text \<open>
  The insert writes NULL into \<open>revoked_at\<close> whatever the struct holds. It fails on a taken
  primary key, on a pair \<open>(algorithm, public_key)\<close> that some row already has (the schema's
  \<open>UNIQUE(algorithm, public_key)\<close>, which covers revoked rows too) and on an
  \<open>account_id\<close> that is no account's id (foreign keys are switched on).
\<close>

definition store_CreateAccountKey :: "env \<Rightarrow> db \<Rightarrow> AccountKey \<Rightarrow> err + (AccountKey \<times> db)" where
  "store_CreateAccountKey e s key =
     (let k1 = (if key_ID key = [] then key\<lparr>key_ID := uuid_key e\<rparr> else key);
          k2 = (if IsZero (key_CreatedAt k1) then k1\<lparr>key_CreatedAt := now_key e\<rparr> else k1)
      in if key_ID k2 \<in> set (map key_ID (t_account_keys s))
            \<or> (key_Algorithm k2, key_PublicKey k2)
                 \<in> set (map (\<lambda>k. (key_Algorithm k, key_PublicKey k)) (t_account_keys s))
            \<or> key_AccountID k2 \<notin> set (map ar_id (t_accounts s))
         then Inl ErrConstraint
         else Inr (k2, s\<lparr>t_account_keys := t_account_keys s @ [k2\<lparr>key_RevokedAt := None\<rparr>]\<rparr>))"

text \<open>\<open>GetAccountKey\<close> returns what \<open>scanAccountKey\<close> returns: a key, or the error.\<close>

definition store_GetAccountKey :: "db \<Rightarrow> string \<Rightarrow> err + AccountKey option" where
  "store_GetAccountKey s ident =
     (case find (\<lambda>k. key_ID k = ident) (t_account_keys s) of
        None \<Rightarrow> Inl ErrNoRows
      | Some k \<Rightarrow> Inr (Some k))"

definition store_GetAccountKeyByPublicKey :: "db \<Rightarrow> string \<Rightarrow> string \<Rightarrow> err + AccountKey option" where
  "store_GetAccountKeyByPublicKey s alg publicKey =
     Inr (find (\<lambda>k. key_Algorithm k = alg \<and> key_PublicKey k = publicKey \<and> key_RevokedAt k = None)
            (t_account_keys s))"

definition store_ListAccountKeys :: "db \<Rightarrow> string \<Rightarrow> err + AccountKey list" where
  "store_ListAccountKeys s accountID =
     Inr (filter (\<lambda>k. key_AccountID k = accountID) (t_account_keys s))"

definition store_RevokeAccountKey :: "env \<Rightarrow> db \<Rightarrow> string \<Rightarrow> err + db" where
  "store_RevokeAccountKey e s ident =
     Inr (s\<lparr>t_account_keys :=
              map (\<lambda>k. if key_ID k = ident then k\<lparr>key_RevokedAt := Some (now_revoke e)\<rparr> else k)
                (t_account_keys s)\<rparr>)"

subsection \<open>Challenges and tokens\<close>

definition challenge_of_row :: "challenge_row \<Rightarrow> Challenge" where
  "challenge_of_row r =
     \<lparr>ch_ID = cr_id r, ch_AgentID = cr_agent_id r, ch_Algorithm = cr_algorithm r,
      ch_Challenge = cr_challenge r, ch_ExpiresAt = scan_datetime (cr_expires_at r)\<rparr>"

definition store_CreateChallenge :: "env \<Rightarrow> db \<Rightarrow> Challenge \<Rightarrow> err + (Challenge \<times> db)" where
  "store_CreateChallenge e s challenge =
     (let c1 = (if ch_ID challenge = [] then challenge\<lparr>ch_ID := uuid_row e\<rparr> else challenge);
          expiresAtStr = sqlite_datetime (ch_ExpiresAt c1)
      in if ch_ID c1 \<in> set (map cr_id (t_challenges s))
            \<or> ch_Challenge c1 \<in> set (map cr_challenge (t_challenges s))
         then Inl ErrConstraint
         else Inr (c1, s\<lparr>t_challenges := t_challenges s @
                [\<lparr>cr_id = ch_ID c1, cr_agent_id = ch_AgentID c1, cr_algorithm = ch_Algorithm c1,
                  cr_challenge = ch_Challenge c1, cr_expires_at = expiresAtStr\<rparr>]\<rparr>))"

definition store_GetChallenge :: "env \<Rightarrow> db \<Rightarrow> string \<Rightarrow> err + Challenge option" where
  "store_GetChallenge e s challengeStr =
     Inr (map_option challenge_of_row
            (find (\<lambda>r. cr_challenge r = challengeStr
                      \<and> cr_expires_at r > sqlite_datetime (sql_now_challenge e))
               (t_challenges s)))"

definition store_DeleteChallenge :: "db \<Rightarrow> string \<Rightarrow> err + db" where
  "store_DeleteChallenge s ident =
     Inr (s\<lparr>t_challenges := filter (\<lambda>r. cr_id r \<noteq> ident) (t_challenges s)\<rparr>)"

definition token_of_row :: "token_row \<Rightarrow> Token" where
  "token_of_row r =
     \<lparr>tok_ID = tr_id r, tok_AccountID = NullString_String (tr_account_id r),
      tok_KeyID = tr_key_id r, tok_AgentID = tr_agent_id r, tok_Token = tr_token r,
      tok_ExpiresAt = scan_datetime (tr_expires_at r)\<rparr>"

definition store_CreateToken :: "env \<Rightarrow> db \<Rightarrow> Token \<Rightarrow> err + (Token \<times> db)" where
  "store_CreateToken e s token =
     (let t1 = (if tok_ID token = [] then token\<lparr>tok_ID := uuid_row e\<rparr> else token);
          expiresAtStr = sqlite_datetime (tok_ExpiresAt t1)
      in if tok_ID t1 \<in> set (map tr_id (t_tokens s))
            \<or> tok_Token t1 \<in> set (map tr_token (t_tokens s))
         then Inl ErrConstraint
         else Inr (t1, s\<lparr>t_tokens := t_tokens s @
                [\<lparr>tr_id = tok_ID t1, tr_account_id = nullString (tok_AccountID t1),
                  tr_key_id = tok_KeyID t1, tr_agent_id = tok_AgentID t1,
                  tr_token = tok_Token t1, tr_expires_at = expiresAtStr\<rparr>]\<rparr>))"

definition store_GetToken :: "env \<Rightarrow> db \<Rightarrow> string \<Rightarrow> err + Token option" where
  "store_GetToken e s tokenStr =
     Inr (map_option token_of_row
            (find (\<lambda>r. tr_token r = tokenStr
                      \<and> tr_expires_at r > sqlite_datetime (sql_now_token e))
               (t_tokens s)))"

definition store_DeleteExpiredTokens :: "env \<Rightarrow> db \<Rightarrow> err + db" where
  "store_DeleteExpiredTokens e s =
     Inr (s\<lparr>t_tokens :=
              filter (\<lambda>r. \<not> tr_expires_at r < sqlite_datetime (sql_now_sweep e)) (t_tokens s)\<rparr>)"

section \<open>internal/auth: the auth service\<close>

definition AlgEd25519 :: string where "AlgEd25519 = ''ed25519''"
definition AlgSecp256k1 :: string where "AlgSecp256k1 = ''secp256k1''"
definition AlgRSAPSS :: string where "AlgRSAPSS = ''rsa-pss''"
definition AlgRSASHA256 :: string where "AlgRSASHA256 = ''rsa-sha256''"

record Service =
  challengeTTL :: duration
  tokenTTL :: duration

definition isValidAlgorithm :: "string \<Rightarrow> bool" where
  "isValidAlgorithm alg =
     (alg = AlgEd25519 \<or> alg = AlgSecp256k1 \<or> alg = AlgRSAPSS \<or> alg = AlgRSASHA256)"

subsection \<open>Signature verification\<close>

definition verifyEd25519 :: "lib \<Rightarrow> string \<Rightarrow> string \<Rightarrow> string \<Rightarrow> err + bool" where
  "verifyEd25519 L publicKeyStr message signatureStr =
     (case base64_StdDecode L publicKeyStr of
        None \<Rightarrow> Inl ErrInvalidPublicKey
      | Some publicKeyBytes \<Rightarrow>
          if length publicKeyBytes \<noteq> 32 then Inl ErrInvalidPublicKey
          else (case base64_StdDecode L signatureStr of
                  None \<Rightarrow> Inl ErrInvalidSignature
                | Some signatureBytes \<Rightarrow>
                    Inr (ed25519_Verify L publicKeyBytes message signatureBytes)))"

definition rsa_of_pkix :: "pkix_key option \<Rightarrow> err + (nat \<times> nat)" where
  "rsa_of_pkix p =
     (case p of
        None \<Rightarrow> Inl ErrInvalidPublicKey
      | Some OtherPublicKey \<Rightarrow> Inl ErrInvalidPublicKey
      | Some (RSAPublicKey n ex) \<Rightarrow> Inr (n, ex))"

text \<open>PEM first; when the text holds no PEM block, base64 of the DER bytes.\<close>

definition parseRSAPublicKey :: "lib \<Rightarrow> string \<Rightarrow> err + (nat \<times> nat)" where
  "parseRSAPublicKey L publicKeyStr =
     (case pem_Decode L publicKeyStr of
        Some block \<Rightarrow> rsa_of_pkix (x509_ParsePKIXPublicKey L block)
      | None \<Rightarrow>
          (case base64_StdDecode L publicKeyStr of
             None \<Rightarrow> Inl ErrInvalidPublicKey
           | Some derBytes \<Rightarrow> rsa_of_pkix (x509_ParsePKIXPublicKey L derBytes)))"

definition verifyRSAPSS :: "lib \<Rightarrow> string \<Rightarrow> string \<Rightarrow> string \<Rightarrow> err + bool" where
  "verifyRSAPSS L publicKeyStr message signatureStr =
     (case parseRSAPublicKey L publicKeyStr of
        Inl er \<Rightarrow> Inl er
      | Inr publicKey \<Rightarrow>
          (case base64_StdDecode L signatureStr of
             None \<Rightarrow> Inl ErrInvalidSignature
           | Some signatureBytes \<Rightarrow>
               Inr (rsa_VerifyPSS L publicKey (sha256_Sum256 L message) signatureBytes)))"

definition verifyRSASHA256 :: "lib \<Rightarrow> string \<Rightarrow> string \<Rightarrow> string \<Rightarrow> err + bool" where
  "verifyRSASHA256 L publicKeyStr message signatureStr =
     (case parseRSAPublicKey L publicKeyStr of
        Inl er \<Rightarrow> Inl er
      | Inr publicKey \<Rightarrow>
          (case base64_StdDecode L signatureStr of
             None \<Rightarrow> Inl ErrInvalidSignature
           | Some signatureBytes \<Rightarrow>
               Inr (rsa_VerifyPKCS1v15 L publicKey (sha256_Sum256 L message) signatureBytes)))"

text \<open>
  The switch of \<open>verifySignature\<close>, in the order of the source. The secp256k1 case
  returns an error without looking at the key, the message or the signature.
\<close>

definition verifySignature :: "lib \<Rightarrow> string \<Rightarrow> string \<Rightarrow> string \<Rightarrow> string \<Rightarrow> err + bool" where
  "verifySignature L alg publicKeyStr message signatureStr =
     (if alg = AlgEd25519 then verifyEd25519 L publicKeyStr message signatureStr
      else if alg = AlgRSAPSS then verifyRSAPSS L publicKeyStr message signatureStr
      else if alg = AlgRSASHA256 then verifyRSASHA256 L publicKeyStr message signatureStr
      else if alg = AlgSecp256k1 then Inl ErrSecp256k1NotImplemented
      else Inl ErrInvalidAlgorithm)"

text \<open>
  The public key string is one that \<open>verifySignature\<close> accepts for the algorithm: it gets
  past the decoding and parsing of the key, so that the signature is decoded next.
\<close>

definition public_key_accepted :: "lib \<Rightarrow> string \<Rightarrow> string \<Rightarrow> bool" where
  "public_key_accepted L alg publicKeyStr =
     (if alg = AlgEd25519
      then (case base64_StdDecode L publicKeyStr of
              None \<Rightarrow> False
            | Some publicKeyBytes \<Rightarrow> length publicKeyBytes = 32)
      else if alg = AlgRSAPSS \<or> alg = AlgRSASHA256
      then (case parseRSAPublicKey L publicKeyStr of Inl er \<Rightarrow> False | Inr publicKey \<Rightarrow> True)
      else False)"

subsection \<open>Challenges and tokens\<close>

definition CreateChallenge ::
  "lib \<Rightarrow> Service \<Rightarrow> env \<Rightarrow> db \<Rightarrow> string \<Rightarrow> string \<Rightarrow> (err + Challenge) \<times> db" where
  "CreateChallenge L svc e s agentID alg =
     (if \<not> isValidAlgorithm alg then (Inl ErrInvalidAlgorithm, s)
      else (case rand_read e of
              None \<Rightarrow> (Inl ErrRandRead, s)
            | Some challengeBytes \<Rightarrow>
                (let challenge =
                       \<lparr>ch_ID = uuid_svc e, ch_AgentID = agentID, ch_Algorithm = alg,
                        ch_Challenge = base64_URLEncode L challengeBytes,
                        ch_ExpiresAt = now_issue e + challengeTTL svc\<rparr>
                 in case store_CreateChallenge e s challenge of
                      Inl er \<Rightarrow> (Inl er, s)
                    | Inr (c, s') \<Rightarrow> (Inr c, s'))))"

text \<open>
  \<open>VerifyAndCreateToken\<close> is written in two parts. \<open>issue_token\<close> is what the source does
  after it has deleted the challenge: the lookup of a registered key, \<open>rand.Read\<close>, the
  token struct (\<open>new_token\<close>; its account and key ids are filled in next) and
  \<open>CreateToken\<close>. The key id of a token for an unregistered key is built from
  \<open>publicKey[:16]\<close>, which panics on a shorter string. The result of \<open>DeleteChallenge\<close>
  is dropped by the source, so the token is issued whether or not the delete succeeded.
\<close>

definition new_token :: "Service \<Rightarrow> lib \<Rightarrow> env \<Rightarrow> string \<Rightarrow> bytes \<Rightarrow> Token" where
  "new_token svc L e agentID tokenBytes =
     \<lparr>tok_ID = uuid_svc e, tok_AccountID = [], tok_KeyID = [], tok_AgentID = agentID,
      tok_Token = base64_URLEncode L tokenBytes,
      tok_ExpiresAt = now_issue e + tokenTTL svc\<rparr>"

definition issue_token ::
  "lib \<Rightarrow> Service \<Rightarrow> env \<Rightarrow> db \<Rightarrow> string \<Rightarrow> string \<Rightarrow> string \<Rightarrow> (err + Token) \<times> db" where
  "issue_token L svc e s agentID alg publicKey =
     (case store_GetAccountKeyByPublicKey s alg publicKey of
        Inl er \<Rightarrow> (Inl er, s)
      | Inr accountKey \<Rightarrow>
          (case rand_read e of
             None \<Rightarrow> (Inl ErrRandRead, s)
           | Some tokenBytes \<Rightarrow>
               (let token = new_token svc L e agentID tokenBytes in
                case (case accountKey of
                        Some k \<Rightarrow> Inr (token\<lparr>tok_AccountID := key_AccountID k, tok_KeyID := key_ID k\<rparr>)
                      | None \<Rightarrow>
                          if length publicKey < 16 then Inl PanicSliceBounds
                          else Inr (token\<lparr>tok_KeyID := ''unregistered:'' @ take 16 publicKey\<rparr>))
                of Inl er \<Rightarrow> (Inl er, s)
                 | Inr token' \<Rightarrow>
                     (case store_CreateToken e s token' of
                        Inl er \<Rightarrow> (Inl er, s)
                      | Inr (t, s') \<Rightarrow> (Inr t, s')))))"

definition VerifyAndCreateToken ::
  "lib \<Rightarrow> Service \<Rightarrow> env \<Rightarrow> db \<Rightarrow> string \<Rightarrow> string \<Rightarrow> string \<Rightarrow> string \<Rightarrow> string
     \<Rightarrow> (err + Token) \<times> db" where
  "VerifyAndCreateToken L svc e s agentID alg publicKey challengeStr signature =
     (case store_GetChallenge e s challengeStr of
        Inl er \<Rightarrow> (Inl er, s)
      | Inr None \<Rightarrow> (Inl ErrChallengeNotFound, s)
      | Inr (Some challenge) \<Rightarrow>
          if now_check e > ch_ExpiresAt challenge then (Inl ErrChallengeExpired, s)
          else if ch_AgentID challenge \<noteq> agentID \<or> ch_Algorithm challenge \<noteq> alg
          then (Inl ErrChallengeNotFound, s)
          else (case verifySignature L alg publicKey challengeStr signature of
                  Inl er \<Rightarrow> (Inl er, s)
                | Inr valid \<Rightarrow>
                    if \<not> valid then (Inl ErrInvalidSignature, s)
                    else (case store_DeleteChallenge s (ch_ID challenge) of
                            Inl er \<Rightarrow> issue_token L svc e s agentID alg publicKey
                          | Inr s1 \<Rightarrow> issue_token L svc e s1 agentID alg publicKey)))"

definition ValidateToken :: "env \<Rightarrow> db \<Rightarrow> string \<Rightarrow> err + Token option" where
  "ValidateToken e s tokenStr =
     (case store_GetToken e s tokenStr of
        Inl er \<Rightarrow> Inl er
      | Inr token \<Rightarrow> Inr token)"

section \<open>internal/api: the account handlers\<close>

text \<open>
  A request is the headers and path values the handlers read; its JSON body is given
  already decoded, \<open>None\<close> when decoding fails. A response is the status and the value
  written by \<open>writeJSON\<close>; a handler that panics writes none.
\<close>

record request =
  hdr_X_Agent_Id :: string
  hdr_Authorization :: string
  path_id :: string
  path_keyId :: string

record CreateAccountRequest =
  car_DisplayName :: string
  car_Bio :: string
  car_HomepageURL :: string
  car_PublicKey :: string
  car_Algorithm :: string
  car_Signature :: string
  car_Challenge :: string

record AddKeyRequest =
  akr_PublicKey :: string
  akr_Algorithm :: string
  akr_Signature :: string
  akr_Challenge :: string

datatype body =
    ErrorResponse string
  | CreateAccountResponse string string
  | AddKeyResponse string
  | DeleteKeyResponse bool

datatype response = Response nat body | HandlerPanic

definition writeError :: "nat \<Rightarrow> string \<Rightarrow> response" where
  "writeError status message = Response status (ErrorResponse message)"

definition getAgentID :: "request \<Rightarrow> string" where
  "getAgentID r = hdr_X_Agent_Id r"

definition getToken :: "request \<Rightarrow> string" where
  "getToken r =
     (if take 7 (hdr_Authorization r) = ''Bearer '' then drop 7 (hdr_Authorization r) else [])"

definition validateToken :: "env \<Rightarrow> db \<Rightarrow> request \<Rightarrow> err + Token option" where
  "validateToken e s r =
     (let tokenStr = getToken r in
      if tokenStr = [] then Inr None else ValidateToken e s tokenStr)"

text \<open>The switch over the error of the verification in \<open>CreateAccount\<close>.\<close>

definition create_account_verify_error :: "err \<Rightarrow> response" where
  "create_account_verify_error er =
     (if er = PanicSliceBounds then HandlerPanic
      else if er = ErrInvalidAlgorithm then writeError 400 ''invalid algorithm''
      else if er = ErrInvalidPublicKey then writeError 400 ''invalid public key format''
      else if er = ErrInvalidSignature then writeError 401 ''invalid signature''
      else if er = ErrChallengeNotFound \<or> er = ErrChallengeExpired
      then writeError 400 ''challenge expired or not found''
      else writeError 500 ''verification failed'')"

text \<open>
  The agent id \<open>CreateAccount\<close> verifies with (the header, or the display name when the
  header is empty), and the struct literals the handlers pass to the store: their id and
  creation time are unset.
\<close>

definition request_agent :: "request \<Rightarrow> CreateAccountRequest \<Rightarrow> string" where
  "request_agent r req = (if getAgentID r = [] then car_DisplayName req else getAgentID r)"

definition request_account :: "CreateAccountRequest \<Rightarrow> Account" where
  "request_account req =
     \<lparr>acc_ID = [], acc_DisplayName = car_DisplayName req, acc_Bio = car_Bio req,
      acc_HomepageURL = car_HomepageURL req, acc_CreatedAt = zero_time\<rparr>"

definition request_key :: "string \<Rightarrow> string \<Rightarrow> string \<Rightarrow> AccountKey" where
  "request_key accountID alg publicKey =
     \<lparr>key_ID = [], key_AccountID = accountID, key_Algorithm = alg, key_PublicKey = publicKey,
      key_CreatedAt = zero_time, key_RevokedAt = None\<rparr>"

definition CreateAccount ::
  "lib \<Rightarrow> Service \<Rightarrow> env \<Rightarrow> db \<Rightarrow> request \<Rightarrow> CreateAccountRequest option \<Rightarrow> response \<times> db" where
  "CreateAccount L svc e s r decoded =
     (case decoded of
        None \<Rightarrow> (writeError 400 ''invalid JSON'', s)
      | Some req \<Rightarrow>
          if car_DisplayName req = [] then (writeError 400 ''display_name is required'', s)
          else if car_PublicKey req = [] \<or> car_Algorithm req = [] \<or> car_Signature req = []
                  \<or> car_Challenge req = []
          then (writeError 400 ''public_key, alg, signature, and challenge are required'', s)
          else
            (let agentID = request_agent r req in
             case VerifyAndCreateToken L svc e s agentID (car_Algorithm req) (car_PublicKey req)
                    (car_Challenge req) (car_Signature req) of
               (Inl er, s1) \<Rightarrow> (create_account_verify_error er, s1)
             | (Inr token, s1) \<Rightarrow>
                 (case store_GetAccountKeyByPublicKey s1 (car_Algorithm req) (car_PublicKey req) of
                    Inl er \<Rightarrow> (writeError 500 ''database error'', s1)
                  | Inr (Some existingKey) \<Rightarrow>
                      (writeError 409 ''public key is already registered to an account'', s1)
                  | Inr None \<Rightarrow>
                      (case store_CreateAccount e s1 (request_account req) of
                         Inl er \<Rightarrow> (writeError 500 ''failed to create account'', s1)
                       | Inr (account, s2) \<Rightarrow>
                           (case store_CreateAccountKey e s2
                                   (request_key (acc_ID account) (car_Algorithm req)
                                      (car_PublicKey req)) of
                              Inl er \<Rightarrow> (writeError 500 ''failed to create account key'', s2)
                            | Inr (key, s3) \<Rightarrow>
                                (Response 201 (CreateAccountResponse (acc_ID account) (key_ID key)),
                                 s3))))))"

definition AddAccountKey ::
  "lib \<Rightarrow> Service \<Rightarrow> env \<Rightarrow> db \<Rightarrow> request \<Rightarrow> AddKeyRequest option \<Rightarrow> response \<times> db" where
  "AddAccountKey L svc e s r decoded =
     (let accountID = path_id r in
      if accountID = [] then (writeError 400 ''account id required'', s)
      else
        (case store_GetAccount s accountID of
           Inl er \<Rightarrow> (writeError 500 ''database error'', s)
         | Inr None \<Rightarrow> (writeError 404 ''account not found'', s)
         | Inr (Some account) \<Rightarrow>
             (case validateToken e s r of
                Inl er \<Rightarrow> (writeError 401 ''authentication required'', s)
              | Inr None \<Rightarrow> (writeError 401 ''authentication required'', s)
              | Inr (Some token) \<Rightarrow>
                  if tok_AccountID token \<noteq> accountID
                  then (writeError 403 ''not authorized to modify this account'', s)
                  else
                    (case decoded of
                       None \<Rightarrow> (writeError 400 ''invalid JSON'', s)
                     | Some req \<Rightarrow>
                         if akr_PublicKey req = [] \<or> akr_Algorithm req = []
                            \<or> akr_Signature req = [] \<or> akr_Challenge req = []
                         then (writeError 400
                                 ''public_key, alg, signature, and challenge are required'', s)
                         else
                           (case VerifyAndCreateToken L svc e s (tok_AgentID token)
                                   (akr_Algorithm req) (akr_PublicKey req) (akr_Challenge req)
                                   (akr_Signature req) of
                              (Inl er, s1) \<Rightarrow>
                                (if er = PanicSliceBounds then HandlerPanic
                                 else if er = ErrInvalidSignature
                                 then writeError 401 ''invalid signature for new key''
                                 else writeError 400 ''verification failed'', s1)
                            | (Inr newToken, s1) \<Rightarrow>
                                (case store_GetAccountKeyByPublicKey s1 (akr_Algorithm req)
                                        (akr_PublicKey req) of
                                   Inl er \<Rightarrow> (writeError 500 ''database error'', s1)
                                 | Inr (Some existingKey) \<Rightarrow>
                                     (writeError 409 ''public key is already registered'', s1)
                                 | Inr None \<Rightarrow>
                                     (case store_CreateAccountKey e s1
                                             (request_key accountID (akr_Algorithm req)
                                                (akr_PublicKey req)) of
                                        Inl er \<Rightarrow>
                                          (writeError 500 ''failed to create account key'', s1)
                                      | Inr (key, s2) \<Rightarrow>
                                          (Response 201 (AddKeyResponse (key_ID key)), s2))))))))"

definition DeleteAccountKey :: "env \<Rightarrow> db \<Rightarrow> request \<Rightarrow> response \<times> db" where
  "DeleteAccountKey e s r =
     (let accountID = path_id r; keyID = path_keyId r in
      if accountID = [] \<or> keyID = [] then (writeError 400 ''account id and key id required'', s)
      else
        (case validateToken e s r of
           Inl er \<Rightarrow> (writeError 401 ''authentication required'', s)
         | Inr None \<Rightarrow> (writeError 401 ''authentication required'', s)
         | Inr (Some token) \<Rightarrow>
             if tok_AccountID token \<noteq> accountID
             then (writeError 403 ''not authorized to modify this account'', s)
             else
               (case store_GetAccountKey s keyID of
                  Inl er \<Rightarrow> (writeError 500 ''database error'', s)
                | Inr None \<Rightarrow> (writeError 404 ''key not found'', s)
                | Inr (Some key) \<Rightarrow>
                    if key_AccountID key \<noteq> accountID
                    then (writeError 403 ''key does not belong to this account'', s)
                    else if key_ID key = tok_KeyID token
                    then (writeError 400 ''cannot revoke the key currently in use'', s)
                    else
                      (case store_RevokeAccountKey e s keyID of
                         Inl er \<Rightarrow> (writeError 500 ''failed to revoke key'', s)
                       | Inr s1 \<Rightarrow> (Response 200 (DeleteKeyResponse True), s1)))))"


section \<open>A concrete library for closed examples\<close>

text \<open>
  Closed examples need the library functions at concrete arguments. Base64 is computed as
  RFC 4648 defines it and as \<open>encoding/base64\<close> implements it: padding is required, CR and
  LF are skipped, the unused low bits of the last digit are not checked. The signature
  checks cannot be computed here; an example names the triples of key, message and
  signature that it takes to be valid Ed25519 signatures and passes them in. The RSA and
  PEM functions are not exercised by the examples and reject everything.
\<close>

definition encodeStd :: string where
  "encodeStd = ''ABCDEFGHIJKLMNOPQRSTUVWXYZabcdefghijklmnopqrstuvwxyz0123456789+/''"

definition encodeURL :: string where
  "encodeURL = ''ABCDEFGHIJKLMNOPQRSTUVWXYZabcdefghijklmnopqrstuvwxyz0123456789-_''"

fun b64_encode :: "string \<Rightarrow> bytes \<Rightarrow> string" where
  "b64_encode al (a # b # c # rest) =
     [al ! (a div 4), al ! ((a mod 4) * 16 + b div 16), al ! ((b mod 16) * 4 + c div 64),
      al ! (c mod 64)] @ b64_encode al rest"
| "b64_encode al [a, b] =
     [al ! (a div 4), al ! ((a mod 4) * 16 + b div 16), al ! ((b mod 16) * 4), CHR ''='']"
| "b64_encode al [a] = [al ! (a div 4), al ! ((a mod 4) * 16), CHR ''='', CHR ''='']"
| "b64_encode al [] = []"

fun b64_digit :: "nat \<Rightarrow> string \<Rightarrow> char \<Rightarrow> nat option" where
  "b64_digit n [] c = None"
| "b64_digit n (x # al) c = (if c = x then Some n else b64_digit (n + 1) al c)"

fun b64_decode :: "string \<Rightarrow> string \<Rightarrow> bytes option" where
  "b64_decode al (a # b # c # d # rest) =
     (case (b64_digit 0 al a, b64_digit 0 al b) of
        (Some va, Some vb) \<Rightarrow>
          if c = CHR ''=''
          then (if d = CHR ''='' \<and> rest = [] then Some [va * 4 + vb div 16] else None)
          else (case b64_digit 0 al c of
                  None \<Rightarrow> None
                | Some vc \<Rightarrow>
                    if d = CHR ''=''
                    then (if rest = []
                          then Some [va * 4 + vb div 16, (vb mod 16) * 16 + vc div 4]
                          else None)
                    else (case b64_digit 0 al d of
                            None \<Rightarrow> None
                          | Some vd \<Rightarrow>
                              map_option
                                (\<lambda>tl. [va * 4 + vb div 16, (vb mod 16) * 16 + vc div 4,
                                       (vc mod 4) * 64 + vd] @ tl)
                                (b64_decode al rest)))
      | _ \<Rightarrow> None)"
| "b64_decode al [] = Some []"
| "b64_decode al (a # rest) = None"

definition StdEncoding_DecodeString :: "string \<Rightarrow> bytes option" where
  "StdEncoding_DecodeString str =
     b64_decode encodeStd (filter (\<lambda>c. c \<noteq> CHR 0x0D \<and> c \<noteq> CHR 0x0A) str)"

definition URLEncoding_EncodeToString :: "bytes \<Rightarrow> string" where
  "URLEncoding_EncodeToString bs = b64_encode encodeURL bs"

definition example_lib :: "(bytes \<times> string \<times> bytes) list \<Rightarrow> lib" where
  "example_lib signed =
     \<lparr>base64_StdDecode = StdEncoding_DecodeString,
      base64_URLEncode = URLEncoding_EncodeToString,
      ed25519_Verify = (\<lambda>publicKey message sig. (publicKey, message, sig) \<in> set signed),
      pem_Decode = (\<lambda>str. None),
      x509_ParsePKIXPublicKey = (\<lambda>der. None),
      sha256_Sum256 = (\<lambda>message. []),
      rsa_VerifyPSS = (\<lambda>publicKey hashed sig. False),
      rsa_VerifyPKCS1v15 = (\<lambda>publicKey hashed sig. False)\<rparr>"

section \<open>Sequences of operations and what every reachable state satisfies\<close>

datatype op =
    OpCreateChallenge env string string
  | OpVerifyAndCreateToken env string string string string string
  | OpCreateAccount env request "CreateAccountRequest option"
  | OpAddAccountKey env request "AddKeyRequest option"
  | OpDeleteAccountKey env request
  | OpRevokeAccountKey env string
  | OpDeleteExpiredTokens env

fun step :: "lib \<Rightarrow> Service \<Rightarrow> db \<Rightarrow> op \<Rightarrow> db" where
  "step L svc s (OpCreateChallenge e agentID alg) = snd (CreateChallenge L svc e s agentID alg)"
| "step L svc s (OpVerifyAndCreateToken e agentID alg publicKey challengeStr signature) =
     snd (VerifyAndCreateToken L svc e s agentID alg publicKey challengeStr signature)"
| "step L svc s (OpCreateAccount e r decoded) = snd (CreateAccount L svc e s r decoded)"
| "step L svc s (OpAddAccountKey e r decoded) = snd (AddAccountKey L svc e s r decoded)"
| "step L svc s (OpDeleteAccountKey e r) = snd (DeleteAccountKey e s r)"
| "step L svc s (OpRevokeAccountKey e ident) =
     (case store_RevokeAccountKey e s ident of Inl er \<Rightarrow> s | Inr s' \<Rightarrow> s')"
| "step L svc s (OpDeleteExpiredTokens e) =
     (case store_DeleteExpiredTokens e s of Inl er \<Rightarrow> s | Inr s' \<Rightarrow> s')"

definition run :: "lib \<Rightarrow> Service \<Rightarrow> op list \<Rightarrow> db" where
  "run L svc ops = foldl (step L svc) empty_db ops"

text \<open>
  The constraints of the schema: the primary keys, \<open>UNIQUE(algorithm, public_key)\<close> on
  \<open>account_keys\<close>, \<open>UNIQUE\<close> on \<open>challenges.challenge\<close> and on \<open>tokens.token\<close>, and the
  foreign key from \<open>account_keys.account_id\<close> to \<open>accounts.id\<close>.
\<close>

definition key_pair :: "AccountKey \<Rightarrow> string \<times> string" where
  "key_pair k = (key_Algorithm k, key_PublicKey k)"

definition wf_db :: "db \<Rightarrow> bool" where
  "wf_db s =
     (distinct (map ar_id (t_accounts s))
      \<and> distinct (map key_ID (t_account_keys s))
      \<and> distinct (map key_pair (t_account_keys s))
      \<and> set (map key_AccountID (t_account_keys s)) \<subseteq> set (map ar_id (t_accounts s))
      \<and> distinct (map cr_id (t_challenges s))
      \<and> distinct (map cr_challenge (t_challenges s))
      \<and> distinct (map tr_id (t_tokens s))
      \<and> distinct (map tr_token (t_tokens s)))"

text \<open>A token row that names an account names a key row of that account.\<close>

definition key_owner :: "AccountKey \<Rightarrow> string \<times> string option" where
  "key_owner k = (key_ID k, Some (key_AccountID k))"

definition tokens_bound :: "db \<Rightarrow> bool" where
  "tokens_bound s =
     (\<forall>t \<in> set (t_tokens s).
        tr_account_id t = None
        \<or> (tr_key_id t, tr_account_id t) \<in> set (map key_owner (t_account_keys s)))"

definition db_inv :: "db \<Rightarrow> bool" where
  "db_inv s = (wf_db s \<and> tokens_bound s)"

definition active_keys :: "db \<Rightarrow> AccountKey list" where
  "active_keys s = filter (\<lambda>k. key_RevokedAt k = None) (t_account_keys s)"

text \<open>
  A request to create an account, or to add a key, passes every test that the handler
  makes before it looks the key up: the fields are present, for \<open>AddAccountKey\<close> the
  account exists and the bearer token validates and belongs to it, and the challenge
  verifies.
\<close>

definition create_account_verified ::
  "lib \<Rightarrow> Service \<Rightarrow> env \<Rightarrow> db \<Rightarrow> request \<Rightarrow> CreateAccountRequest \<Rightarrow> bool" where
  "create_account_verified L svc e s r req =
     (car_DisplayName req \<noteq> [] \<and> car_PublicKey req \<noteq> [] \<and> car_Algorithm req \<noteq> []
      \<and> car_Signature req \<noteq> [] \<and> car_Challenge req \<noteq> []
      \<and> (case fst (VerifyAndCreateToken L svc e s (request_agent r req) (car_Algorithm req)
                      (car_PublicKey req) (car_Challenge req) (car_Signature req)) of
            Inl er \<Rightarrow> False
          | Inr token \<Rightarrow> True))"

definition add_key_verified ::
  "lib \<Rightarrow> Service \<Rightarrow> env \<Rightarrow> db \<Rightarrow> request \<Rightarrow> AddKeyRequest \<Rightarrow> bool" where
  "add_key_verified L svc e s r req =
     (path_id r \<noteq> []
      \<and> (case store_GetAccount s (path_id r) of Inl er \<Rightarrow> False | Inr account \<Rightarrow> True)
      \<and> (case validateToken e s r of
            Inl er \<Rightarrow> False
          | Inr None \<Rightarrow> False
          | Inr (Some token) \<Rightarrow>
              tok_AccountID token = path_id r
              \<and> akr_PublicKey req \<noteq> [] \<and> akr_Algorithm req \<noteq> []
              \<and> akr_Signature req \<noteq> [] \<and> akr_Challenge req \<noteq> []
              \<and> (case fst (VerifyAndCreateToken L svc e s (tok_AgentID token)
                              (akr_Algorithm req) (akr_PublicKey req) (akr_Challenge req)
                              (akr_Signature req)) of
                    Inl er \<Rightarrow> False
                  | Inr newToken \<Rightarrow> True)))"

section \<open>Example data\<close>

definition example_svc :: Service where
  "example_svc = \<lparr>challengeTTL = 300 * second, tokenTTL = 86400 * second\<rparr>"

definition pk1 :: string where
  "pk1 = ''AQIDBAUGBwgJCgsMDQ4PEBESExQVFhcYGRobHB0eHyA=''"

definition pk1_bytes :: bytes where
  "pk1_bytes = [1..<33]"

definition sig1 :: string where
  "sig1 = ''QEFCQ0RFRkdISUpLTE1OT1BRUlNUVVZXWFlaW1xdXl9gYWJjZGVmZ2hpamtsbW5vcHFyc3R1dnd4eXp7fH1+fw==''"

definition sig1_bytes :: bytes where
  "sig1_bytes = [64..<128]"

definition rnd1 :: bytes where
  "rnd1 = [32..<64]"

definition challenge1 :: string where
  "challenge1 = ''ICEiIyQlJicoKSorLC0uLzAxMjM0NTY3ODk6Ozw9Pj8=''"

definition rnd2 :: bytes where
  "rnd2 = [200..<232]"

definition token1 :: string where
  "token1 = ''yMnKy8zNzs_Q0dLT1NXW19jZ2tvc3d7f4OHi4-Tl5uc=''"

definition sig2 :: string where
  "sig2 = ''AAECAwQFBgcICQoLDA0ODxAREhMUFRYXGBkaGxwdHh8gISIjJCUmJygpKissLS4vMDEyMzQ1Njc4OTo7PD0+Pw==''"

definition sig2_bytes :: bytes where
  "sig2_bytes = [0..<64]"

definition sig3 :: string where
  "sig3 = ''ZGVmZ2hpamtsbW5vcHFyc3R1dnd4eXp7fH1+f4CBgoOEhYaHiImKi4yNjo+QkZKTlJWWl5iZmpucnZ6foKGiow==''"

definition sig3_bytes :: bytes where
  "sig3_bytes = [100..<164]"

definition rnd3 :: bytes where
  "rnd3 = [96..<128]"

definition challenge2 :: string where
  "challenge2 = ''YGFiY2RlZmdoaWprbG1ub3BxcnN0dXZ3eHl6e3x9fn8=''"

definition rnd4 :: bytes where
  "rnd4 = [128..<160]"

definition token2 :: string where
  "token2 = ''gIGCg4SFhoeIiYqLjI2Oj5CRkpOUlZaXmJmam5ydnp8=''"

definition rnd5 :: bytes where
  "rnd5 = [160..<192]"

definition challenge3 :: string where
  "challenge3 = ''oKGio6SlpqeoqaqrrK2ur7CxsrO0tba3uLm6u7y9vr8=''"

text \<open>
  The example library takes \<open>sig1\<close>, \<open>sig2\<close> and \<open>sig3\<close> to be valid Ed25519 signatures,
  under the key \<open>pk1\<close>, of \<open>challenge1\<close>, \<open>challenge2\<close> and \<open>challenge3\<close>.
\<close>

definition L1 :: lib where
  "L1 = example_lib [(pk1_bytes, challenge1, sig1_bytes), (pk1_bytes, challenge2, sig2_bytes),
                     (pk1_bytes, challenge3, sig3_bytes)]"

text \<open>
  The readings of a call made \<open>t\<close> seconds after the epoch, with the given random bytes;
  the tag makes the identifiers of the call distinct from those of other calls.
\<close>

definition env_at :: "int \<Rightarrow> string \<Rightarrow> bytes \<Rightarrow> env" where
  "env_at t tag rnd =
     \<lparr>sql_now_token = t * second + 100,
      sql_now_challenge = t * second + 200,
      sql_now_sweep = t * second + 300,
      now_check = t * second + 400,
      now_issue = t * second + 500,
      now_account = t * second + 600,
      now_key = t * second + 700,
      now_revoke = t * second + 800,
      rand_read = Some rnd,
      uuid_svc = ''0b0e7a52-'' @ tag @ ''-4000-8000-00000000000a'',
      uuid_row = ''0b0e7a52-'' @ tag @ ''-4000-8000-00000000000b'',
      uuid_account = ''0b0e7a52-'' @ tag @ ''-4000-8000-00000000000c'',
      uuid_key = ''0b0e7a52-'' @ tag @ ''-4000-8000-00000000000d''\<rparr>"


text \<open>
  A session: agent \<open>a1\<close> asks for a challenge, creates the account \<open>alice\<close> with the key
  \<open>pk1\<close>, asks for a second challenge and verifies it, which gives a token bound to the
  account and its key, and asks for a third challenge, which stays pending.
\<close>

definition alice_request :: CreateAccountRequest where
  "alice_request =
     \<lparr>car_DisplayName = ''alice'', car_Bio = [], car_HomepageURL = [], car_PublicKey = pk1,
      car_Algorithm = ''ed25519'', car_Signature = sig1, car_Challenge = challenge1\<rparr>"

definition plain_request :: request where
  "plain_request =
     \<lparr>hdr_X_Agent_Id = ''a1'', hdr_Authorization = [], path_id = [], path_keyId = []\<rparr>"

definition session_ops :: "op list" where
  "session_ops =
     [OpCreateChallenge (env_at 1700000000 ''0001'' rnd1) ''a1'' ''ed25519'',
      OpCreateAccount (env_at 1700000005 ''0002'' rnd2) plain_request (Some alice_request),
      OpCreateChallenge (env_at 1700000010 ''0003'' rnd3) ''a1'' ''ed25519'',
      OpVerifyAndCreateToken (env_at 1700000015 ''0004'' rnd4) ''a1'' ''ed25519'' pk1 challenge2 sig2,
      OpCreateChallenge (env_at 1700000020 ''0005'' rnd5) ''a1'' ''ed25519'']"

definition alice_id :: string where
  "alice_id = ''0b0e7a52-0002-4000-8000-00000000000c''"

definition alice_key_id :: string where
  "alice_key_id = ''0b0e7a52-0002-4000-8000-00000000000d''"

text \<open>The state the session leads to.\<close>

definition session_db :: db where
  "session_db =
     \<lparr>t_accounts =
        [\<lparr>ar_id = alice_id, ar_display_name = ''alice'', ar_bio = None,
          ar_homepage_url = None, ar_created_at = 1700000005 * second + 600\<rparr>],
      t_account_keys =
        [\<lparr>key_ID = alice_key_id, key_AccountID = alice_id, key_Algorithm = ''ed25519'',
          key_PublicKey = pk1, key_CreatedAt = 1700000005 * second + 700,
          key_RevokedAt = None\<rparr>],
      t_challenges =
        [\<lparr>cr_id = ''0b0e7a52-0005-4000-8000-00000000000a'', cr_agent_id = ''a1'',
          cr_algorithm = ''ed25519'', cr_challenge = challenge3, cr_expires_at = 1700000320\<rparr>],
      t_tokens =
        [\<lparr>tr_id = ''0b0e7a52-0002-4000-8000-00000000000a'', tr_account_id = None,
          tr_key_id = ''unregistered:AQIDBAUGBwgJCgsM'', tr_agent_id = ''a1'',
          tr_token = token1, tr_expires_at = 1700086405\<rparr>,
         \<lparr>tr_id = ''0b0e7a52-0004-4000-8000-00000000000a'', tr_account_id = Some alice_id,
          tr_key_id = alice_key_id, tr_agent_id = ''a1'',
          tr_token = token2, tr_expires_at = 1700086415\<rparr>]\<rparr>"

text \<open>The same session followed by the revocation of the account's key.\<close>

definition revoked_db :: db where
  "revoked_db =
     session_db\<lparr>t_account_keys :=
        [\<lparr>key_ID = alice_key_id, key_AccountID = alice_id, key_Algorithm = ''ed25519'',
          key_PublicKey = pk1, key_CreatedAt = 1700000005 * second + 700,
          key_RevokedAt = Some (1700000025 * second + 800)\<rparr>]\<rparr>"

text \<open>A later call, half a minute into the session.\<close>

definition rnd6 :: bytes where
  "rnd6 = [192..<224]"

definition token3 :: string where
  "token3 = ''wMHCw8TFxsfIycrLzM3Oz9DR0tPU1dbX2Nna29zd3t8=''"

definition env1 :: env where
  "env1 = env_at 1700000030 ''0007'' rnd6"

definition bearer_request :: "string \<Rightarrow> string \<Rightarrow> string \<Rightarrow> request" where
  "bearer_request tokenStr accountID keyID =
     \<lparr>hdr_X_Agent_Id = ''a1'', hdr_Authorization = ''Bearer '' @ tokenStr,
      path_id = accountID, path_keyId = keyID\<rparr>"

text \<open>
  A second request to create an account with the key \<open>pk1\<close>, signed over the pending
  challenge, and the same as a request to add the key to an account.
\<close>

definition again_request :: CreateAccountRequest where
  "again_request =
     \<lparr>car_DisplayName = ''alice2'', car_Bio = [], car_HomepageURL = [], car_PublicKey = pk1,
      car_Algorithm = ''ed25519'', car_Signature = sig3, car_Challenge = challenge3\<rparr>"

definition again_key_request :: AddKeyRequest where
  "again_key_request =
     \<lparr>akr_PublicKey = pk1, akr_Algorithm = ''ed25519'', akr_Signature = sig3,
      akr_Challenge = challenge3\<rparr>"

text \<open>A secp256k1 public key in compressed form and a 65-byte signature, both in hex.\<close>

definition secp_pk :: string where
  "secp_pk = ''0279be667ef9dcbbac55a06295ce870b07029bfcdb2dce28d959f2815b16f81798''"

definition secp_sig :: string where
  "secp_sig = ''0x5d99b6f7f6d1f73d1a26497f2b1c89b24c0993913f86e9a2d02cd69887d9c94f3c880358579d811b21dd1b7fd9bb01c1d81d10e69f0384e675c32b39643be8921b''"

section \<open>Basic facts\<close>

lemma second_pos: "0 < second"
  by (simp add: second_def)

lemma div_less_iff_int:
  fixes t c n :: int
  assumes "0 < c"
  shows "(t div c < n) = (t < n * c)"
proof -
  define q where "q = t div c"
  define r where "r = t mod c"
  have t: "t = q * c + r" by (simp add: q_def r_def)
  have r: "0 \<le> r" "r < c" using assms by (simp_all add: r_def)
  have "q < n \<longleftrightarrow> q * c + r < n * c"
  proof
    assume "q < n"
    then have "q + 1 \<le> n" by simp
    then have "(q + 1) * c \<le> n * c" using assms by (simp only: mult_right_mono less_imp_le)
    then have "q * c + c \<le> n * c" by (simp add: algebra_simps)
    with r show "q * c + r < n * c" by linarith
  next
    assume a: "q * c + r < n * c"
    show "q < n"
    proof (rule ccontr)
      assume "\<not> q < n"
      then have "n \<le> q" by simp
      then have "n * c \<le> q * c" using assms by (simp only: mult_right_mono less_imp_le)
      with a r show False by linarith
    qed
  qed
  then show ?thesis unfolding q_def [symmetric] using t by simp
qed

text \<open>
  The comparison of the two texts in the SQL queries is the comparison of the current
  instant with the instant the column reads back as.
\<close>

lemma sqlite_datetime_less_iff: "sqlite_datetime t < n \<longleftrightarrow> t < scan_datetime n"
  unfolding sqlite_datetime_def scan_datetime_def by (rule div_less_iff_int [OF second_pos])

lemma find_absent: "a \<notin> f ` set xs \<Longrightarrow> find (\<lambda>y. f y = a \<and> P y) xs = None"
  by (induction xs) auto

lemma find_unique:
  assumes "distinct (map f xs)" "x \<in> set xs"
  shows "find (\<lambda>y. f y = f x \<and> P y) xs = (if P x then Some x else None)"
  using assms by (induction xs) (auto simp: find_absent)


section \<open>The example session\<close>

text \<open>The example states are states the system reaches.\<close>

lemma session_db_reachable: "run L1 example_svc session_ops = session_db"
  by code_simp

lemma revoked_db_reachable:
  "run L1 example_svc
     (session_ops @ [OpRevokeAccountKey (env_at 1700000025 ''0006'' []) alice_key_id])
   = revoked_db"
  by code_simp

text \<open>The base64 functions of the example library on the example strings.\<close>

lemma example_encodings:
  "URLEncoding_EncodeToString rnd1 = challenge1 \<and> URLEncoding_EncodeToString rnd2 = token1
   \<and> URLEncoding_EncodeToString rnd3 = challenge2 \<and> URLEncoding_EncodeToString rnd4 = token2
   \<and> URLEncoding_EncodeToString rnd5 = challenge3 \<and> URLEncoding_EncodeToString rnd6 = token3
   \<and> StdEncoding_DecodeString pk1 = Some pk1_bytes
   \<and> StdEncoding_DecodeString sig1 = Some sig1_bytes
   \<and> StdEncoding_DecodeString sig2 = Some sig2_bytes
   \<and> StdEncoding_DecodeString sig3 = Some sig3_bytes"
  by code_simp

section \<open>Validating a token\<close>

text \<open>
  C3. In a store that satisfies the schema, \<open>ValidateToken\<close> never returns an error. For a
  token string that a row of \<open>tokens\<close> holds it returns that row exactly when the current
  instant (the one \<open>datetime('now')\<close> reads) is before the row's \<open>expires_at\<close>, and nothing
  otherwise; for a string that no row holds it returns nothing. Nothing but the row and
  the clock enters the result.
\<close>

theorem ValidateToken_stored:
  assumes "wf_db s"
  shows "(\<forall>r \<in> set (t_tokens s). tr_token r = tokenStr \<longrightarrow>
            ValidateToken e s tokenStr =
              Inr (if sql_now_token e < scan_datetime (tr_expires_at r)
                   then Some (token_of_row r) else None))
         \<and> (tokenStr \<notin> tr_token ` set (t_tokens s) \<longrightarrow> ValidateToken e s tokenStr = Inr None)"
proof (intro conjI ballI impI)
  fix r assume r: "r \<in> set (t_tokens s)" and tr: "tr_token r = tokenStr"
  from assms have d: "distinct (map tr_token (t_tokens s))" by (simp add: wf_db_def)
  have "find (\<lambda>y. tr_token y = tr_token r \<and> sqlite_datetime (sql_now_token e) < tr_expires_at y)
          (t_tokens s)
        = (if sqlite_datetime (sql_now_token e) < tr_expires_at r then Some r else None)"
    using find_unique [OF d r] by simp
  then show "ValidateToken e s tokenStr =
              Inr (if sql_now_token e < scan_datetime (tr_expires_at r)
                   then Some (token_of_row r) else None)"
    using tr by (simp add: ValidateToken_def store_GetToken_def sqlite_datetime_less_iff)
next
  assume "tokenStr \<notin> tr_token ` set (t_tokens s)"
  then show "ValidateToken e s tokenStr = Inr None"
    by (simp add: ValidateToken_def store_GetToken_def find_absent)
qed

theorem ValidateToken_stored_witness:
  "wf_db session_db
   \<and> ValidateToken env1 session_db token2 =
       Inr (Some \<lparr>tok_ID = ''0b0e7a52-0004-4000-8000-00000000000a'', tok_AccountID = alice_id,
                  tok_KeyID = alice_key_id, tok_AgentID = ''a1'', tok_Token = token2,
                  tok_ExpiresAt = 1700086415 * second\<rparr>)
   \<and> ValidateToken (env1\<lparr>sql_now_token := 1700086415 * second\<rparr>) session_db token2 = Inr None
   \<and> ValidateToken env1 session_db ''no-such-token'' = Inr None"
proof -
  let ?r = "\<lparr>tr_id = ''0b0e7a52-0004-4000-8000-00000000000a'', tr_account_id = Some alice_id,
             tr_key_id = alice_key_id, tr_agent_id = ''a1'', tr_token = token2,
             tr_expires_at = 1700086415\<rparr>"
  have wf: "wf_db session_db" by code_simp
  have r: "?r \<in> set (t_tokens session_db)" by (simp add: session_db_def)
  have absent: "''no-such-token'' \<notin> tr_token ` set (t_tokens session_db)"
    by (simp add: session_db_def token1_def token2_def)
  have before: "sql_now_token env1 < scan_datetime (tr_expires_at ?r)"
    by (simp add: env1_def env_at_def scan_datetime_def second_def)
  have a: "ValidateToken env1 session_db token2 = Inr (Some (token_of_row ?r))"
    using ValidateToken_stored [OF wf, of token2 env1] r before by auto
  have b: "ValidateToken (env1\<lparr>sql_now_token := 1700086415 * second\<rparr>) session_db token2
             = Inr None"
    using ValidateToken_stored [OF wf, of token2 "env1\<lparr>sql_now_token := 1700086415 * second\<rparr>"] r
    by (auto simp: scan_datetime_def)
  have c: "ValidateToken env1 session_db ''no-such-token'' = Inr None"
    using ValidateToken_stored [OF wf, of "''no-such-token''" env1] absent by simp
  from wf a b c show ?thesis
    by (simp add: token_of_row_def NullString_String_def scan_datetime_def)
qed

section \<open>The secp256k1 case of the verifier\<close>

text \<open>
  C5. For secp256k1 \<open>verifySignature\<close> decodes nothing and verifies nothing: whatever the
  key, the message and the signature are, it returns the error "secp256k1 not yet
  implemented". No signature is ever reported valid for this algorithm.
\<close>

theorem verifySignature_secp256k1:
  "verifySignature L AlgSecp256k1 publicKeyStr message signatureStr
     = Inl ErrSecp256k1NotImplemented"
  by (simp add: verifySignature_def AlgSecp256k1_def AlgEd25519_def AlgRSAPSS_def
      AlgRSASHA256_def)
section \<open>Revoking a key\<close>

lemma find_map_update:
  "find P (map f xs) = map_option f (find (\<lambda>x. P (f x)) xs)"
  by (induction xs) auto

lemma revoked_never_found:
  "find (\<lambda>k. key_Algorithm k = alg \<and> key_PublicKey k = pk \<and> key_RevokedAt k = None)
     (map (\<lambda>k. if key_ID k = ident then k\<lparr>key_RevokedAt := Some t\<rparr> else k) ks) = Some k'
   \<Longrightarrow> key_ID k' \<noteq> ident"
  by (induction ks) (auto split: if_splits)

lemma revoke_lookup_other:
  assumes "\<forall>k \<in> set ks. key_ID k = ident \<longrightarrow> key_pair k \<noteq> (alg, pk)"
  shows "find (\<lambda>k. key_Algorithm k = alg \<and> key_PublicKey k = pk \<and> key_RevokedAt k = None)
     (map (\<lambda>k. if key_ID k = ident then k\<lparr>key_RevokedAt := Some t\<rparr> else k) ks)
   = find (\<lambda>k. key_Algorithm k = alg \<and> key_PublicKey k = pk \<and> key_RevokedAt k = None) ks"
  using assms by (induction ks) (auto simp: key_pair_def)

lemma revoke_lookup_target:
  assumes "distinct (map key_pair ks)" "k \<in> set ks" "key_ID k = ident"
  shows "find (\<lambda>x. key_Algorithm x = key_Algorithm k \<and> key_PublicKey x = key_PublicKey k
                   \<and> key_RevokedAt x = None)
     (map (\<lambda>k. if key_ID k = ident then k\<lparr>key_RevokedAt := Some t\<rparr> else k) ks) = None"
proof -
  have "\<And>x. x \<in> set ks \<Longrightarrow> key_Algorithm x = key_Algorithm k \<Longrightarrow> key_PublicKey x = key_PublicKey k \<Longrightarrow> x = k"
    using assms(1,2) by (metis (no_types, lifting) distinct_map inj_onD key_pair_def)
  then show ?thesis using assms(3)
    by (auto simp: find_None_iff)
qed

text \<open>
  C9. \<open>RevokeAccountKey\<close> always succeeds and changes nothing but the \<open>revoked_at\<close> column
  of the rows with the given id: the other tables and the other key rows are as before.
  Afterwards no lookup by public key returns a key of that id; in a store that satisfies
  the schema the lookup of the revoked key's own pair returns nothing, and the lookup of
  every other pair is as before. \<open>ValidateToken\<close> gives the same answer for every token
  string at every instant as before the revocation: a token issued through the revoked
  key still validates.
\<close>

theorem RevokeAccountKey_frame:
  "\<exists>s'. store_RevokeAccountKey e s ident = Inr s'
     \<and> t_accounts s' = t_accounts s \<and> t_challenges s' = t_challenges s \<and> t_tokens s' = t_tokens s
     \<and> list_all2 (\<lambda>k k'. k' = (if key_ID k = ident then k\<lparr>key_RevokedAt := Some (now_revoke e)\<rparr> else k))
          (t_account_keys s) (t_account_keys s')
     \<and> (\<forall>alg publicKey k. store_GetAccountKeyByPublicKey s' alg publicKey = Inr (Some k)
            \<longrightarrow> key_ID k \<noteq> ident)
     \<and> (\<forall>k \<in> set (t_account_keys s). key_ID k = ident \<longrightarrow> wf_db s \<longrightarrow>
            store_GetAccountKeyByPublicKey s' (key_Algorithm k) (key_PublicKey k) = Inr None)
     \<and> (\<forall>alg publicKey.
            (\<forall>k \<in> set (t_account_keys s). key_ID k = ident \<longrightarrow> key_pair k \<noteq> (alg, publicKey))
            \<longrightarrow> store_GetAccountKeyByPublicKey s' alg publicKey
                 = store_GetAccountKeyByPublicKey s alg publicKey)
     \<and> (\<forall>e' tokenStr. ValidateToken e' s' tokenStr = ValidateToken e' s tokenStr)"
  by (auto simp: store_RevokeAccountKey_def store_GetAccountKeyByPublicKey_def ValidateToken_def
      store_GetToken_def list_all2_map2 list_all2_same wf_db_def revoke_lookup_target revoke_lookup_other
      dest: revoked_never_found)


theorem RevokeAccountKey_frame_witness:
  "wf_db session_db
   \<and> store_GetAccountKeyByPublicKey session_db ''ed25519'' pk1 \<noteq> Inr None
   \<and> (case store_RevokeAccountKey env1 session_db alice_key_id of
         Inl er \<Rightarrow> False
       | Inr s' \<Rightarrow>
           store_GetAccountKeyByPublicKey s' ''ed25519'' pk1 = Inr None
           \<and> t_tokens s' = t_tokens session_db
           \<and> ValidateToken env1 s' token2 = ValidateToken env1 session_db token2
           \<and> ValidateToken env1 s' token2 \<noteq> Inr None)"
proof -
  let ?k = "\<lparr>key_ID = alice_key_id, key_AccountID = alice_id, key_Algorithm = ''ed25519'',
             key_PublicKey = pk1, key_CreatedAt = 1700000005 * second + 700,
             key_RevokedAt = None\<rparr>"
  have wf: "wf_db session_db" by code_simp
  have k: "?k \<in> set (t_account_keys session_db)" by (simp add: session_db_def)
  have before: "store_GetAccountKeyByPublicKey session_db ''ed25519'' pk1 \<noteq> Inr None"
    by code_simp
  have valid: "ValidateToken env1 session_db token2 \<noteq> Inr None" by code_simp
  from RevokeAccountKey_frame [of env1 session_db alice_key_id] obtain s' where
    s': "store_RevokeAccountKey env1 session_db alice_key_id = Inr s'"
    and tok: "t_tokens s' = t_tokens session_db"
    and gone: "\<forall>k \<in> set (t_account_keys session_db). key_ID k = alice_key_id \<longrightarrow>
            wf_db session_db \<longrightarrow>
            store_GetAccountKeyByPublicKey s' (key_Algorithm k) (key_PublicKey k) = Inr None"
    and same: "\<forall>e' tokenStr. ValidateToken e' s' tokenStr = ValidateToken e' session_db tokenStr"
    by blast
  from gone k wf have "store_GetAccountKeyByPublicKey s' ''ed25519'' pk1 = Inr None"
    by fastforce
  with wf before valid s' tok same show ?thesis by simp
qed

section \<open>Expired challenges\<close>

text \<open>
  C4. When every stored challenge with the given string has its \<open>expires_at\<close> in the past,
  at the instant of the lookup or at the instant of the \<open>After\<close> test,
  \<open>VerifyAndCreateToken\<close> fails with \<open>ErrChallengeNotFound\<close> or with \<open>ErrChallengeExpired\<close>
  and leaves the store as it was: no token is issued. When the expiry lies before the
  instant of the lookup the error is \<open>ErrChallengeNotFound\<close>, because the query leaves
  expired rows out.
\<close>

theorem expired_challenge_never_verifies:
  assumes "\<forall>r \<in> set (t_challenges s). cr_challenge r = challengeStr \<longrightarrow>
             scan_datetime (cr_expires_at r) < sql_now_challenge e
             \<or> scan_datetime (cr_expires_at r) < now_check e"
  shows "(VerifyAndCreateToken L svc e s agentID alg publicKey challengeStr signature
            = (Inl ErrChallengeNotFound, s)
          \<or> VerifyAndCreateToken L svc e s agentID alg publicKey challengeStr signature
            = (Inl ErrChallengeExpired, s))
         \<and> ((\<forall>r \<in> set (t_challenges s). cr_challenge r = challengeStr \<longrightarrow>
                scan_datetime (cr_expires_at r) < sql_now_challenge e)
              \<longrightarrow> VerifyAndCreateToken L svc e s agentID alg publicKey challengeStr signature
                    = (Inl ErrChallengeNotFound, s))"
proof -
  let ?P = "\<lambda>r. cr_challenge r = challengeStr
                \<and> sqlite_datetime (sql_now_challenge e) < cr_expires_at r"
  show ?thesis
  proof (cases "find ?P (t_challenges s)")
    case None
    then show ?thesis
      by (simp add: VerifyAndCreateToken_def store_GetChallenge_def)
  next
    case (Some r)
    then have r: "r \<in> set (t_challenges s)" "cr_challenge r = challengeStr"
      and live: "sql_now_challenge e < scan_datetime (cr_expires_at r)"
      by (auto simp: find_Some_iff sqlite_datetime_less_iff in_set_conv_nth)
    with assms have "scan_datetime (cr_expires_at r) < now_check e" by fastforce
    with Some r live show ?thesis
      by (auto simp: VerifyAndCreateToken_def store_GetChallenge_def challenge_of_row_def)
  qed
qed

theorem expired_challenge_never_verifies_witness:
  "map cr_expires_at (t_challenges session_db) = [1700000320]
   \<and> VerifyAndCreateToken L1 example_svc (env1\<lparr>sql_now_challenge := 1700000321 * second\<rparr>)
         session_db ''a1'' ''ed25519'' pk1 challenge3 sig3 = (Inl ErrChallengeNotFound, session_db)
   \<and> VerifyAndCreateToken L1 example_svc (env1\<lparr>now_check := 1700000321 * second\<rparr>)
         session_db ''a1'' ''ed25519'' pk1 challenge3 sig3 = (Inl ErrChallengeExpired, session_db)"
proof -
  have h: "\<forall>r \<in> set (t_challenges session_db). cr_challenge r = challenge3 \<longrightarrow>
        scan_datetime (cr_expires_at r) < 1700000321 * second"
    by (simp add: session_db_def scan_datetime_def second_def)
  have a: "VerifyAndCreateToken L1 example_svc (env1\<lparr>sql_now_challenge := 1700000321 * second\<rparr>)
         session_db ''a1'' ''ed25519'' pk1 challenge3 sig3 = (Inl ErrChallengeNotFound, session_db)"
    using expired_challenge_never_verifies
      [of session_db challenge3 "env1\<lparr>sql_now_challenge := 1700000321 * second\<rparr>" L1 example_svc
          "''a1''" "''ed25519''" pk1 sig3] h
    by simp
  have nf: "VerifyAndCreateToken L1 example_svc (env1\<lparr>now_check := 1700000321 * second\<rparr>)
         session_db ''a1'' ''ed25519'' pk1 challenge3 sig3 \<noteq> (Inl ErrChallengeNotFound, session_db)"
    by code_simp
  have b: "VerifyAndCreateToken L1 example_svc (env1\<lparr>now_check := 1700000321 * second\<rparr>)
         session_db ''a1'' ''ed25519'' pk1 challenge3 sig3 = (Inl ErrChallengeExpired, session_db)"
    using expired_challenge_never_verifies
      [of session_db challenge3 "env1\<lparr>now_check := 1700000321 * second\<rparr>" L1 example_svc
          "''a1''" "''ed25519''" pk1 sig3] h nf
    by simp
  have c: "map cr_expires_at (t_challenges session_db) = [1700000320]"
    by (simp add: session_db_def)
  from c a b show ?thesis by blast
qed
section \<open>Every operation keeps the schema's constraints\<close>

lemma tokens_bound_mono:
  assumes "tokens_bound s" "set (t_tokens s') \<subseteq> set (t_tokens s)"
    "set (map key_owner (t_account_keys s)) \<subseteq> set (map key_owner (t_account_keys s'))"
  shows "tokens_bound s'"
  using assms unfolding tokens_bound_def by blast

lemma store_CreateAccount_inv:
  assumes "store_CreateAccount e s a = Inr (a', s')" "db_inv s"
  shows "db_inv s'"
proof -
  from assms(1) obtain row where s': "s' = s\<lparr>t_accounts := t_accounts s @ [row]\<rparr>"
    and fresh: "ar_id row \<notin> set (map ar_id (t_accounts s))"
    by (auto simp: store_CreateAccount_def Let_def account_to_row_def split: if_splits)
  from assms(2) have "tokens_bound s'"
    unfolding db_inv_def by (auto intro: tokens_bound_mono simp: s')
  moreover from assms(2) fresh have "wf_db s'"
    unfolding db_inv_def wf_db_def s' by auto
  ultimately show ?thesis by (simp add: db_inv_def)
qed

lemma store_CreateAccountKey_inv:
  assumes "store_CreateAccountKey e s k = Inr (k', s')" "db_inv s"
  shows "db_inv s'"
proof -
  from assms(1) obtain row where s': "s' = s\<lparr>t_account_keys := t_account_keys s @ [row]\<rparr>"
    and fresh: "key_ID row \<notin> set (map key_ID (t_account_keys s))"
      "key_pair row \<notin> set (map key_pair (t_account_keys s))"
      "key_AccountID row \<in> set (map ar_id (t_accounts s))"
    by (auto simp: store_CreateAccountKey_def Let_def key_pair_def split: if_splits)
  from assms(2) have "tokens_bound s'"
    unfolding db_inv_def by (auto intro: tokens_bound_mono simp: s')
  moreover from assms(2) fresh have "wf_db s'"
    unfolding db_inv_def wf_db_def s' by auto
  ultimately show ?thesis by (simp add: db_inv_def)
qed

lemma map_revoke:
  "map key_ID (map (\<lambda>k. if key_ID k = ident then k\<lparr>key_RevokedAt := t\<rparr> else k) ks) = map key_ID ks"
  "map key_pair (map (\<lambda>k. if key_ID k = ident then k\<lparr>key_RevokedAt := t\<rparr> else k) ks) = map key_pair ks"
  "map key_AccountID (map (\<lambda>k. if key_ID k = ident then k\<lparr>key_RevokedAt := t\<rparr> else k) ks) = map key_AccountID ks"
  "map key_owner (map (\<lambda>k. if key_ID k = ident then k\<lparr>key_RevokedAt := t\<rparr> else k) ks) = map key_owner ks"
  by (induction ks) (auto simp: key_pair_def key_owner_def)

lemma store_RevokeAccountKey_inv:
  assumes "store_RevokeAccountKey e s ident = Inr s'" "db_inv s"
  shows "db_inv s'"
proof -
  from assms(1) have s': "s' = s\<lparr>t_account_keys :=
      map (\<lambda>k. if key_ID k = ident then k\<lparr>key_RevokedAt := Some (now_revoke e)\<rparr> else k) (t_account_keys s)\<rparr>"
    by (simp add: store_RevokeAccountKey_def)
  from assms(2) have "tokens_bound s'"
    unfolding db_inv_def by (auto intro: tokens_bound_mono simp: s' map_revoke simp del: map_map set_map)
  moreover from assms(2) have "wf_db s'"
    unfolding db_inv_def wf_db_def s' by (simp add: map_revoke del: map_map set_map)
  ultimately show ?thesis by (simp add: db_inv_def)
qed

lemma store_CreateChallenge_inv:
  assumes "store_CreateChallenge e s c = Inr (c', s')" "db_inv s"
  shows "db_inv s'"
proof -
  from assms(1) obtain row where s': "s' = s\<lparr>t_challenges := t_challenges s @ [row]\<rparr>"
    and fresh: "cr_id row \<notin> set (map cr_id (t_challenges s))"
      "cr_challenge row \<notin> set (map cr_challenge (t_challenges s))"
    by (auto simp: store_CreateChallenge_def Let_def split: if_splits)
  from assms(2) have "tokens_bound s'"
    unfolding db_inv_def by (auto intro: tokens_bound_mono simp: s')
  moreover from assms(2) fresh have "wf_db s'"
    unfolding db_inv_def wf_db_def s' by auto
  ultimately show ?thesis by (simp add: db_inv_def)
qed

lemma store_DeleteChallenge_inv:
  assumes "store_DeleteChallenge s ident = Inr s'" "db_inv s"
  shows "db_inv s'"
proof -
  from assms(1) have s': "s' = s\<lparr>t_challenges := filter (\<lambda>r. cr_id r \<noteq> ident) (t_challenges s)\<rparr>"
    by (simp add: store_DeleteChallenge_def)
  from assms(2) have "tokens_bound s'"
    unfolding db_inv_def by (auto intro: tokens_bound_mono simp: s')
  moreover from assms(2) have "wf_db s'"
    unfolding db_inv_def wf_db_def s' by (simp add: distinct_map_filter)
  ultimately show ?thesis by (simp add: db_inv_def)
qed

lemma store_DeleteExpiredTokens_inv:
  assumes "store_DeleteExpiredTokens e s = Inr s'" "db_inv s"
  shows "db_inv s'"
proof -
  from assms(1) have s': "s' = s\<lparr>t_tokens :=
      filter (\<lambda>r. \<not> tr_expires_at r < sqlite_datetime (sql_now_sweep e)) (t_tokens s)\<rparr>"
    by (simp add: store_DeleteExpiredTokens_def)
  from assms(2) have "tokens_bound s'"
    unfolding db_inv_def by (auto intro: tokens_bound_mono simp: s')
  moreover from assms(2) have "wf_db s'"
    unfolding db_inv_def wf_db_def s' by (simp add: distinct_map_filter)
  ultimately show ?thesis by (simp add: db_inv_def)
qed

lemma store_CreateToken_inv:
  assumes "store_CreateToken e s t = Inr (t', s')" "db_inv s"
    and "nullString (tok_AccountID t) = None
         \<or> (tok_KeyID t, nullString (tok_AccountID t)) \<in> set (map key_owner (t_account_keys s))"
  shows "db_inv s'"
proof -
  from assms(1) obtain row where s': "s' = s\<lparr>t_tokens := t_tokens s @ [row]\<rparr>"
    and fresh: "tr_id row \<notin> set (map tr_id (t_tokens s))"
      "tr_token row \<notin> set (map tr_token (t_tokens s))"
    and row: "tr_key_id row = tok_KeyID t" "tr_account_id row = nullString (tok_AccountID t)"
    by (auto simp: store_CreateToken_def Let_def split: if_splits)
  from assms(2,3) row have "tokens_bound s'"
    unfolding db_inv_def tokens_bound_def s' by auto
  moreover from assms(2) fresh have "wf_db s'"
    unfolding db_inv_def wf_db_def s' by auto
  ultimately show ?thesis by (simp add: db_inv_def)
qed

lemma issue_token_frame:
  "t_accounts (snd (issue_token L svc e s agentID alg publicKey)) = t_accounts s"
  "t_account_keys (snd (issue_token L svc e s agentID alg publicKey)) = t_account_keys s"
  "t_challenges (snd (issue_token L svc e s agentID alg publicKey)) = t_challenges s"
  by (auto simp: issue_token_def store_GetAccountKeyByPublicKey_def store_CreateToken_def Let_def
      split: option.splits sum.splits if_splits prod.splits)

lemma find_SomeD: "find P xs = Some x \<Longrightarrow> x \<in> set xs \<and> P x"
  by (induction xs) (auto split: if_splits)

lemma find_key_owner:
  "find P ks = Some k \<Longrightarrow> (key_ID k, Some (key_AccountID k)) \<in> set (map key_owner ks)"
  by (drule find_SomeD) (auto simp: key_owner_def)

lemma issue_token_inv:
  assumes "db_inv s"
  shows "db_inv (snd (issue_token L svc e s agentID alg publicKey))"
proof (cases "rand_read e")
  case None
  with assms show ?thesis
    by (simp add: issue_token_def store_GetAccountKeyByPublicKey_def)
next
  case (Some tokenBytes)
  let ?tok = "new_token svc L e agentID tokenBytes"
  show ?thesis
  proof (cases "find (\<lambda>k. key_Algorithm k = alg \<and> key_PublicKey k = publicKey \<and> key_RevokedAt k = None)
                  (t_account_keys s)")
    case None
    show ?thesis
    proof (cases "store_CreateToken e s (?tok\<lparr>tok_KeyID := ''unregistered:'' @ take 16 publicKey\<rparr>)")
      case (Inl er)
      with None Some assms show ?thesis
        by (simp add: issue_token_def store_GetAccountKeyByPublicKey_def)
    next
      case (Inr p)
      then obtain t s' where p: "p = (t, s')" by (cases p)
      have "db_inv s'"
        using store_CreateToken_inv [OF Inr [unfolded p] assms]
        by (simp add: new_token_def nullString_def)
      with None Some Inr p assms show ?thesis
        by (simp add: issue_token_def store_GetAccountKeyByPublicKey_def)
    qed
  next
    case (Some k)
    note k = this
    show ?thesis
    proof (cases "store_CreateToken e s (?tok\<lparr>tok_AccountID := key_AccountID k, tok_KeyID := key_ID k\<rparr>)")
      case (Inl er)
      with k \<open>rand_read e = Some tokenBytes\<close> assms show ?thesis
        by (simp add: issue_token_def store_GetAccountKeyByPublicKey_def)
    next
      case (Inr p)
      then obtain t s' where p: "p = (t, s')" by (cases p)
      have "db_inv s'"
        using store_CreateToken_inv [OF Inr [unfolded p] assms] find_key_owner [OF k]
        by (simp add: nullString_def)
      with k \<open>rand_read e = Some tokenBytes\<close> Inr p assms show ?thesis
        by (simp add: issue_token_def store_GetAccountKeyByPublicKey_def)
    qed
  qed
qed

lemma VerifyAndCreateToken_frame:
  "t_accounts (snd (VerifyAndCreateToken L svc e s agentID alg publicKey challengeStr signature))
     = t_accounts s"
  "t_account_keys (snd (VerifyAndCreateToken L svc e s agentID alg publicKey challengeStr signature))
     = t_account_keys s"
  by (auto simp: VerifyAndCreateToken_def store_GetChallenge_def store_DeleteChallenge_def
      issue_token_frame split: option.splits sum.splits)

lemma VerifyAndCreateToken_inv:
  assumes "db_inv s"
  shows "db_inv (snd (VerifyAndCreateToken L svc e s agentID alg publicKey challengeStr signature))"
proof -
  have "db_inv (snd (issue_token L svc e s1 agentID alg publicKey))"
    if "store_DeleteChallenge s i = Inr s1" for s1 i
    using issue_token_inv [OF store_DeleteChallenge_inv [OF that assms]] .
  with assms show ?thesis
    by (auto simp: VerifyAndCreateToken_def store_GetChallenge_def issue_token_inv
        split: option.splits sum.splits)
qed

lemma CreateChallenge_inv:
  assumes "db_inv s"
  shows "db_inv (snd (CreateChallenge L svc e s agentID alg))"
  using assms
  by (auto simp: CreateChallenge_def Let_def split: option.splits sum.splits
      dest: store_CreateChallenge_inv)
section \<open>The outcomes of the account handlers\<close>

lemma CreateAccount_outcomes:
  obtains
    (invalid_json) "decoded = None"
      "CreateAccount L svc e s r decoded = (writeError 400 ''invalid JSON'', s)"
  | (no_name) req where "decoded = Some req" "car_DisplayName req = []"
      "CreateAccount L svc e s r decoded = (writeError 400 ''display_name is required'', s)"
  | (missing_field) req where "decoded = Some req"
      "CreateAccount L svc e s r decoded
         = (writeError 400 ''public_key, alg, signature, and challenge are required'', s)"
  | (verify_failed) req er s1 where "decoded = Some req"
      "VerifyAndCreateToken L svc e s (request_agent r req) (car_Algorithm req) (car_PublicKey req)
         (car_Challenge req) (car_Signature req) = (Inl er, s1)"
      "CreateAccount L svc e s r decoded = (create_account_verify_error er, s1)"
  | (conflict) req token s1 existingKey where "decoded = Some req"
      "car_DisplayName req \<noteq> []" "car_PublicKey req \<noteq> []" "car_Algorithm req \<noteq> []"
      "car_Signature req \<noteq> []" "car_Challenge req \<noteq> []"
      "VerifyAndCreateToken L svc e s (request_agent r req) (car_Algorithm req) (car_PublicKey req)
         (car_Challenge req) (car_Signature req) = (Inr token, s1)"
      "store_GetAccountKeyByPublicKey s1 (car_Algorithm req) (car_PublicKey req)
         = Inr (Some existingKey)"
      "CreateAccount L svc e s r decoded
         = (writeError 409 ''public key is already registered to an account'', s1)"
  | (account_failed) req token s1 er where "decoded = Some req"
      "VerifyAndCreateToken L svc e s (request_agent r req) (car_Algorithm req) (car_PublicKey req)
         (car_Challenge req) (car_Signature req) = (Inr token, s1)"
      "store_GetAccountKeyByPublicKey s1 (car_Algorithm req) (car_PublicKey req) = Inr None"
      "store_CreateAccount e s1 (request_account req) = Inl er"
      "CreateAccount L svc e s r decoded = (writeError 500 ''failed to create account'', s1)"
  | (key_failed) req token s1 account s2 er where "decoded = Some req"
      "VerifyAndCreateToken L svc e s (request_agent r req) (car_Algorithm req) (car_PublicKey req)
         (car_Challenge req) (car_Signature req) = (Inr token, s1)"
      "store_GetAccountKeyByPublicKey s1 (car_Algorithm req) (car_PublicKey req) = Inr None"
      "store_CreateAccount e s1 (request_account req) = Inr (account, s2)"
      "store_CreateAccountKey e s2
         (request_key (acc_ID account) (car_Algorithm req) (car_PublicKey req)) = Inl er"
      "CreateAccount L svc e s r decoded = (writeError 500 ''failed to create account key'', s2)"
  | (created) req token s1 account s2 key s3 where "decoded = Some req"
      "VerifyAndCreateToken L svc e s (request_agent r req) (car_Algorithm req) (car_PublicKey req)
         (car_Challenge req) (car_Signature req) = (Inr token, s1)"
      "store_GetAccountKeyByPublicKey s1 (car_Algorithm req) (car_PublicKey req) = Inr None"
      "store_CreateAccount e s1 (request_account req) = Inr (account, s2)"
      "store_CreateAccountKey e s2
         (request_key (acc_ID account) (car_Algorithm req) (car_PublicKey req)) = Inr (key, s3)"
      "CreateAccount L svc e s r decoded
         = (Response 201 (CreateAccountResponse (acc_ID account) (key_ID key)), s3)"
proof (cases decoded)
  case None
  then show ?thesis by (intro invalid_json) (simp_all add: CreateAccount_def)
next
  case (Some req)
  note dec = this
  show ?thesis
  proof (cases "car_DisplayName req = []")
    case True
    with dec show ?thesis by (intro no_name [of req]) (simp_all add: CreateAccount_def)
  next
    case False
    note name = this
    show ?thesis
    proof (cases "car_PublicKey req = [] \<or> car_Algorithm req = [] \<or> car_Signature req = []
                  \<or> car_Challenge req = []")
      case True
      with dec name show ?thesis
        by (intro missing_field [of req]) (auto simp: CreateAccount_def)
    next
      case False
      note fields = this
      obtain res s1 where v: "VerifyAndCreateToken L svc e s (request_agent r req)
          (car_Algorithm req) (car_PublicKey req) (car_Challenge req) (car_Signature req) = (res, s1)"
        by (cases "VerifyAndCreateToken L svc e s (request_agent r req)
          (car_Algorithm req) (car_PublicKey req) (car_Challenge req) (car_Signature req)")
      show ?thesis
      proof (cases res)
        case (Inl er)
        with dec name fields v show ?thesis
          by (intro verify_failed [of req er s1]) (simp_all add: CreateAccount_def)
      next
        case (Inr token)
        note tok = this
        show ?thesis
        proof (cases "store_GetAccountKeyByPublicKey s1 (car_Algorithm req) (car_PublicKey req)")
          case (Inl er)
          then show ?thesis by (simp add: store_GetAccountKeyByPublicKey_def)
        next
          case (Inr found)
          note look = this
          show ?thesis
          proof (cases found)
            case (Some existingKey)
            with dec name fields v tok look show ?thesis
              by (intro conflict [of req token s1 existingKey]) (simp_all add: CreateAccount_def)
          next
            case None
            note nokey = this
            show ?thesis
            proof (cases "store_CreateAccount e s1 (request_account req)")
              case (Inl er)
              with dec name fields v tok look nokey show ?thesis
                by (intro account_failed [of req token s1 er]) (simp_all add: CreateAccount_def)
            next
              case (Inr p)
              then obtain account s2 where
                p: "store_CreateAccount e s1 (request_account req) = Inr (account, s2)"
                by (cases p) simp
              show ?thesis
              proof (cases "store_CreateAccountKey e s2
                  (request_key (acc_ID account) (car_Algorithm req) (car_PublicKey req))")
                case (Inl er)
                with dec name fields v tok look nokey p show ?thesis
                  by (intro key_failed [of req token s1 account s2 er])
                    (simp_all add: CreateAccount_def)
              next
                case (Inr q)
                then obtain key s3 where q: "store_CreateAccountKey e s2
                  (request_key (acc_ID account) (car_Algorithm req) (car_PublicKey req))
                    = Inr (key, s3)"
                  by (cases q) simp
                with dec name fields v tok look nokey p show ?thesis
                  by (intro created [of req token s1 account s2 key s3])
                    (simp_all add: CreateAccount_def)
              qed
            qed
          qed
        qed
      qed
    qed
  qed
qed

lemma CreateAccount_inv:
  assumes "db_inv s"
  shows "db_inv (snd (CreateAccount L svc e s r decoded))"
proof -
  have v: "db_inv (snd (VerifyAndCreateToken L svc e s a b c d f))" for a b c d f
    by (rule VerifyAndCreateToken_inv [OF assms])
  show ?thesis
  proof (cases rule: CreateAccount_outcomes [of decoded L svc e s r])
    case (verify_failed req er s1)
    with v [of "request_agent r req" "car_Algorithm req" "car_PublicKey req" "car_Challenge req"
        "car_Signature req"] show ?thesis by simp
  next
    case (conflict req token s1 existingKey)
    with v [of "request_agent r req" "car_Algorithm req" "car_PublicKey req" "car_Challenge req"
        "car_Signature req"] show ?thesis by simp
  next
    case (account_failed req token s1 er)
    with v [of "request_agent r req" "car_Algorithm req" "car_PublicKey req" "car_Challenge req"
        "car_Signature req"] show ?thesis by simp
  next
    case (key_failed req token s1 account s2 er)
    with v [of "request_agent r req" "car_Algorithm req" "car_PublicKey req" "car_Challenge req"
        "car_Signature req"] have "db_inv s1" by simp
    with key_failed show ?thesis by (simp add: store_CreateAccount_inv)
  next
    case (created req token s1 account s2 key s3)
    with v [of "request_agent r req" "car_Algorithm req" "car_PublicKey req" "car_Challenge req"
        "car_Signature req"] have "db_inv s1" by simp
    with created have "db_inv s2" by (simp add: store_CreateAccount_inv)
    with created have "db_inv s3" using store_CreateAccountKey_inv by blast
    with created show ?thesis by simp
  qed (simp_all add: assms)
qed

lemma AddAccountKey_outcomes:
  obtains
    (no_id) "path_id r = []"
      "AddAccountKey L svc e s r decoded = (writeError 400 ''account id required'', s)"
  | (no_account) er where "store_GetAccount s (path_id r) = Inl er"
      "AddAccountKey L svc e s r decoded = (writeError 500 ''database error'', s)"
  | (unauthenticated) "\<forall>token. validateToken e s r \<noteq> Inr (Some token)"
      "AddAccountKey L svc e s r decoded = (writeError 401 ''authentication required'', s)"
  | (forbidden) token where "validateToken e s r = Inr (Some token)"
      "tok_AccountID token \<noteq> path_id r"
      "AddAccountKey L svc e s r decoded
         = (writeError 403 ''not authorized to modify this account'', s)"
  | (invalid_json) "decoded = None"
      "AddAccountKey L svc e s r decoded = (writeError 400 ''invalid JSON'', s)"
  | (missing_field) req where "decoded = Some req"
      "AddAccountKey L svc e s r decoded
         = (writeError 400 ''public_key, alg, signature, and challenge are required'', s)"
  | (verify_failed) token req er s1 where "validateToken e s r = Inr (Some token)"
      "decoded = Some req"
      "VerifyAndCreateToken L svc e s (tok_AgentID token) (akr_Algorithm req) (akr_PublicKey req)
         (akr_Challenge req) (akr_Signature req) = (Inl er, s1)"
      "AddAccountKey L svc e s r decoded
         = (if er = PanicSliceBounds then HandlerPanic
            else if er = ErrInvalidSignature then writeError 401 ''invalid signature for new key''
            else writeError 400 ''verification failed'', s1)"
  | (conflict) token req newToken s1 existingKey where "validateToken e s r = Inr (Some token)"
      "decoded = Some req"
      "VerifyAndCreateToken L svc e s (tok_AgentID token) (akr_Algorithm req) (akr_PublicKey req)
         (akr_Challenge req) (akr_Signature req) = (Inr newToken, s1)"
      "store_GetAccountKeyByPublicKey s1 (akr_Algorithm req) (akr_PublicKey req)
         = Inr (Some existingKey)"
      "AddAccountKey L svc e s r decoded
         = (writeError 409 ''public key is already registered'', s1)"
  | (key_failed) token req newToken s1 er where "validateToken e s r = Inr (Some token)"
      "decoded = Some req"
      "VerifyAndCreateToken L svc e s (tok_AgentID token) (akr_Algorithm req) (akr_PublicKey req)
         (akr_Challenge req) (akr_Signature req) = (Inr newToken, s1)"
      "store_GetAccountKeyByPublicKey s1 (akr_Algorithm req) (akr_PublicKey req) = Inr None"
      "store_CreateAccountKey e s1
         (request_key (path_id r) (akr_Algorithm req) (akr_PublicKey req)) = Inl er"
      "AddAccountKey L svc e s r decoded = (writeError 500 ''failed to create account key'', s1)"
  | (created) token req newToken s1 key s2 where "validateToken e s r = Inr (Some token)"
      "tok_AccountID token = path_id r" "decoded = Some req"
      "VerifyAndCreateToken L svc e s (tok_AgentID token) (akr_Algorithm req) (akr_PublicKey req)
         (akr_Challenge req) (akr_Signature req) = (Inr newToken, s1)"
      "store_GetAccountKeyByPublicKey s1 (akr_Algorithm req) (akr_PublicKey req) = Inr None"
      "store_CreateAccountKey e s1
         (request_key (path_id r) (akr_Algorithm req) (akr_PublicKey req)) = Inr (key, s2)"
      "AddAccountKey L svc e s r decoded = (Response 201 (AddKeyResponse (key_ID key)), s2)"
proof (cases "path_id r = []")
  case True
  then show ?thesis by (intro no_id) (simp_all add: AddAccountKey_def)
next
  case False
  note pid = this
  show ?thesis
  proof (cases "store_GetAccount s (path_id r)")
    case (Inl er)
    with pid show ?thesis by (intro no_account [of er]) (simp_all add: AddAccountKey_def)
  next
    case (Inr found)
    then obtain account where acc: "store_GetAccount s (path_id r) = Inr (Some account)"
      by (auto simp: store_GetAccount_def split: option.splits)
    show ?thesis
    proof (cases "validateToken e s r")
      case (Inl er)
      with pid acc show ?thesis by (intro unauthenticated) (simp_all add: AddAccountKey_def)
    next
      case (Inr vt)
      note val = this
      show ?thesis
      proof (cases vt)
        case None
        with pid acc val show ?thesis by (intro unauthenticated) (simp_all add: AddAccountKey_def)
      next
        case (Some token)
        note tok = this
        show ?thesis
        proof (cases "tok_AccountID token = path_id r")
          case False
          with pid acc val tok show ?thesis
            by (intro forbidden [of token]) (simp_all add: AddAccountKey_def)
        next
          case True
          note own = this
          show ?thesis
          proof (cases decoded)
            case None
            with pid acc val tok own show ?thesis
              by (intro invalid_json) (simp_all add: AddAccountKey_def)
          next
            case (Some req)
            note dec = this
            show ?thesis
            proof (cases "akr_PublicKey req = [] \<or> akr_Algorithm req = [] \<or> akr_Signature req = []
                          \<or> akr_Challenge req = []")
              case True
              with pid acc val tok own dec show ?thesis
                by (intro missing_field [of req]) (auto simp: AddAccountKey_def)
            next
              case False
              note fields = this
              obtain res s1 where v: "VerifyAndCreateToken L svc e s (tok_AgentID token)
                  (akr_Algorithm req) (akr_PublicKey req) (akr_Challenge req) (akr_Signature req)
                    = (res, s1)"
                by (cases "VerifyAndCreateToken L svc e s (tok_AgentID token)
                  (akr_Algorithm req) (akr_PublicKey req) (akr_Challenge req) (akr_Signature req)")
              show ?thesis
              proof (cases res)
                case (Inl er)
                with pid acc val tok own dec fields v show ?thesis
                  by (intro verify_failed [of token req er s1]) (simp_all add: AddAccountKey_def)
              next
                case (Inr newToken)
                note nt = this
                show ?thesis
                proof (cases "find (\<lambda>k. key_Algorithm k = akr_Algorithm req
                                \<and> key_PublicKey k = akr_PublicKey req \<and> key_RevokedAt k = None)
                               (t_account_keys s1)")
                  case (Some existingKey)
                  with pid acc val tok own dec fields v nt show ?thesis
                    by (intro conflict [of token req newToken s1 existingKey])
                      (simp_all add: AddAccountKey_def store_GetAccountKeyByPublicKey_def)
                next
                  case None
                  note nokey = this
                  show ?thesis
                  proof (cases "store_CreateAccountKey e s1
                      (request_key (path_id r) (akr_Algorithm req) (akr_PublicKey req))")
                    case (Inl er)
                    with pid acc val tok own dec fields v nt nokey show ?thesis
                      by (intro key_failed [of token req newToken s1 er])
                        (simp_all add: AddAccountKey_def store_GetAccountKeyByPublicKey_def)
                  next
                    case (Inr q)
                    then obtain key s2 where q: "store_CreateAccountKey e s1
                      (request_key (path_id r) (akr_Algorithm req) (akr_PublicKey req))
                        = Inr (key, s2)"
                      by (cases q) simp
                    with pid acc val tok own dec fields v nt nokey show ?thesis
                      by (intro created [of token req newToken s1 key s2])
                        (simp_all add: AddAccountKey_def store_GetAccountKeyByPublicKey_def)
                  qed
                qed
              qed
            qed
          qed
        qed
      qed
    qed
  qed
qed


lemma AddAccountKey_inv:
  assumes "db_inv s"
  shows "db_inv (snd (AddAccountKey L svc e s r decoded))"
proof -
  have v: "db_inv (snd (VerifyAndCreateToken L svc e s a b c d f))" for a b c d f
    by (rule VerifyAndCreateToken_inv [OF assms])
  show ?thesis
  proof (cases rule: AddAccountKey_outcomes [of r L svc e s decoded])
    case (verify_failed token req er s1)
    with v [of "tok_AgentID token" "akr_Algorithm req" "akr_PublicKey req" "akr_Challenge req"
        "akr_Signature req"] show ?thesis by simp
  next
    case (conflict token req newToken s1 existingKey)
    with v [of "tok_AgentID token" "akr_Algorithm req" "akr_PublicKey req" "akr_Challenge req"
        "akr_Signature req"] show ?thesis by simp
  next
    case (key_failed token req newToken s1 er)
    with v [of "tok_AgentID token" "akr_Algorithm req" "akr_PublicKey req" "akr_Challenge req"
        "akr_Signature req"] show ?thesis by simp
  next
    case (created token req newToken s1 key s2)
    with v [of "tok_AgentID token" "akr_Algorithm req" "akr_PublicKey req" "akr_Challenge req"
        "akr_Signature req"] have "db_inv s1" by simp
    with created have "db_inv s2" using store_CreateAccountKey_inv by blast
    with created show ?thesis by simp
  qed (simp_all add: assms)
qed

text \<open>
  \<open>DeleteAccountKey\<close> either leaves the store as it was or answers 200 after
  \<open>RevokeAccountKey\<close> on a key of the requesting token's account that is not the key the
  token was issued through.
\<close>

lemma DeleteAccountKey_outcomes:
  obtains
    (unchanged) status message where
      "DeleteAccountKey e s r = (writeError status message, s)"
      "status \<in> {400, 401, 403, 404, 500}"
  | (revoked) token key s1 where "validateToken e s r = Inr (Some token)"
      "tok_AccountID token = path_id r"
      "store_GetAccountKey s (path_keyId r) = Inr (Some key)"
      "key_AccountID key = path_id r" "key_ID key \<noteq> tok_KeyID token"
      "store_RevokeAccountKey e s (path_keyId r) = Inr s1"
      "DeleteAccountKey e s r = (Response 200 (DeleteKeyResponse True), s1)"
proof (cases "path_id r = [] \<or> path_keyId r = []")
  case True
  then show ?thesis
    by (intro unchanged [of 400 "''account id and key id required''"])
      (auto simp: DeleteAccountKey_def)
next
  case False
  note ids = this
  show ?thesis
  proof (cases "validateToken e s r")
    case (Inl er)
    with ids show ?thesis
      by (intro unchanged [of 401 "''authentication required''"])
        (auto simp: DeleteAccountKey_def)
  next
    case (Inr vt)
    note val = this
    show ?thesis
    proof (cases vt)
      case None
      with ids val show ?thesis
        by (intro unchanged [of 401 "''authentication required''"])
          (auto simp: DeleteAccountKey_def)
    next
      case (Some token)
      note tok = this
      show ?thesis
      proof (cases "tok_AccountID token = path_id r")
        case False
        with ids val tok show ?thesis
          by (intro unchanged [of 403 "''not authorized to modify this account''"])
            (auto simp: DeleteAccountKey_def)
      next
        case True
        note own = this
        show ?thesis
        proof (cases "store_GetAccountKey s (path_keyId r)")
          case (Inl er)
          with ids val tok own show ?thesis
            by (intro unchanged [of 500 "''database error''"])
              (auto simp: DeleteAccountKey_def)
        next
          case (Inr found)
          then obtain key where key: "store_GetAccountKey s (path_keyId r) = Inr (Some key)"
            by (cases "find (\<lambda>k. key_ID k = path_keyId r) (t_account_keys s)")
              (auto simp: store_GetAccountKey_def)
          show ?thesis
          proof (cases "key_AccountID key = path_id r")
            case False
            with ids val tok own key show ?thesis
              by (intro unchanged [of 403 "''key does not belong to this account''"])
                (auto simp: DeleteAccountKey_def)
          next
            case True
            note kacc = this
            show ?thesis
            proof (cases "key_ID key = tok_KeyID token")
              case True
              with ids val tok own key kacc show ?thesis
                by (intro unchanged [of 400 "''cannot revoke the key currently in use''"])
                  (auto simp: DeleteAccountKey_def)
            next
              case False
              obtain s1 where s1: "store_RevokeAccountKey e s (path_keyId r) = Inr s1"
                by (simp add: store_RevokeAccountKey_def)
              with False ids val tok own key kacc show ?thesis
                by (intro revoked [of token key s1]) (auto simp: DeleteAccountKey_def)
            qed
          qed
        qed
      qed
    qed
  qed
qed

lemma DeleteAccountKey_inv:
  assumes "db_inv s"
  shows "db_inv (snd (DeleteAccountKey e s r))"
proof (cases rule: DeleteAccountKey_outcomes [of e s r])
  case (unchanged status message)
  with assms show ?thesis by simp
next
  case (revoked token key s1)
  with assms show ?thesis using store_RevokeAccountKey_inv by fastforce
qed

lemma step_inv: "db_inv s \<Longrightarrow> db_inv (step L svc s x)"
proof (cases x)
  case (OpRevokeAccountKey e ident)
  assume "db_inv s"
  with OpRevokeAccountKey show ?thesis
    using store_RevokeAccountKey_inv [of e s ident]
    by (auto split: sum.splits)
next
  case (OpDeleteExpiredTokens e)
  assume "db_inv s"
  with OpDeleteExpiredTokens show ?thesis
    using store_DeleteExpiredTokens_inv [of e s]
    by (auto split: sum.splits)
qed (simp_all add: CreateChallenge_inv VerifyAndCreateToken_inv CreateAccount_inv
      AddAccountKey_inv DeleteAccountKey_inv)

lemma empty_db_inv: "db_inv empty_db"
  by (simp add: db_inv_def wf_db_def tokens_bound_def empty_db_def)

lemma foldl_step_inv: "db_inv s \<Longrightarrow> db_inv (foldl (step L svc) s ops)"
  by (induction ops arbitrary: s) (simp_all add: step_inv)

lemma run_inv: "db_inv (run L svc ops)"
  unfolding run_def by (rule foldl_step_inv [OF empty_db_inv])
section \<open>Revoking the key that authenticates the request\<close>





section \<open>Creating an account and its first key\<close>

lemma find_append_fresh:
  "\<forall>y \<in> set xs. \<not> P y \<Longrightarrow> P x \<Longrightarrow> find P (xs @ [x]) = Some x"
  by (induction xs) auto

lemma store_CreateAccount_row:
  assumes "store_CreateAccount e s a = Inr (a', s')"
  shows "s' = s\<lparr>t_accounts := t_accounts s @ [account_to_row a']\<rparr>
         \<and> acc_ID a' \<notin> set (map ar_id (t_accounts s))"
  using assms by (auto simp: store_CreateAccount_def Let_def split: if_splits)

text \<open>
  C7, as the code has it. \<open>CreateAccount\<close> inserts the account and then the key with two
  separate calls of the store; there is no transaction and no delete of the account when
  the second call fails. When the handler answers 500 "failed to create account key", in
  a store that satisfied the schema, the account row has been added and stays: it is found
  by \<open>GetAccount\<close> under its new id, and it has no key.
\<close>

theorem CreateAccount_key_insert_failure:
  assumes "wf_db s"
    and "fst (CreateAccount L svc e s r decoded) = writeError 500 ''failed to create account key''"
  shows "\<exists>row. t_accounts (snd (CreateAccount L svc e s r decoded)) = t_accounts s @ [row]
           \<and> ar_id row \<notin> set (map ar_id (t_accounts s))
           \<and> t_account_keys (snd (CreateAccount L svc e s r decoded)) = t_account_keys s
           \<and> store_GetAccount (snd (CreateAccount L svc e s r decoded)) (ar_id row)
               = Inr (Some (account_of_row row))
           \<and> store_ListAccountKeys (snd (CreateAccount L svc e s r decoded)) (ar_id row) = Inr []"
proof (cases rule: CreateAccount_outcomes [of decoded L svc e s r])
  case (key_failed req token s1 account s2 er)
  have fr: "t_accounts s1 = t_accounts s" "t_account_keys s1 = t_account_keys s"
    using VerifyAndCreateToken_frame [of L svc e s "request_agent r req" "car_Algorithm req"
        "car_PublicKey req" "car_Challenge req" "car_Signature req"] key_failed(2)
    by simp_all
  from store_CreateAccount_row [OF key_failed(4)] have
    s2: "s2 = s1\<lparr>t_accounts := t_accounts s1 @ [account_to_row account]\<rparr>"
    and fresh: "acc_ID account \<notin> set (map ar_id (t_accounts s1))" by simp_all
  let ?row = "account_to_row account"
  have id: "ar_id ?row = acc_ID account" by (simp add: account_to_row_def)
  from fresh have "\<forall>y \<in> set (t_accounts s1). \<not> ar_id y = acc_ID account"
    by (metis image_eqI set_map)
  from find_append_fresh [of "t_accounts s1" "\<lambda>x. ar_id x = acc_ID account" ?row, OF this id]
  have get: "store_GetAccount s2 (ar_id ?row) = Inr (Some (account_of_row ?row))"
    by (simp add: store_GetAccount_def s2 id)
  from assms(1) have "set (map key_AccountID (t_account_keys s)) \<subseteq> set (map ar_id (t_accounts s))"
    by (simp add: wf_db_def)
  with fresh fr have "\<forall>k \<in> set (t_account_keys s). key_AccountID k \<noteq> acc_ID account"
    by (metis image_eqI set_map subsetD)
  then have list: "store_ListAccountKeys s2 (ar_id ?row) = Inr []"
    by (auto simp: store_ListAccountKeys_def s2 id fr filter_empty_conv)
  show ?thesis
    using key_failed(6) fr fresh get list
    by (intro exI [of _ ?row]) (simp add: s2 id)
qed (use assms(2) in \<open>auto simp: writeError_def create_account_verify_error_def split: if_splits\<close>)

theorem CreateAccount_key_insert_failure_witness:
  "wf_db revoked_db
   \<and> fst (CreateAccount L1 example_svc env1 revoked_db plain_request (Some again_request))
       = writeError 500 ''failed to create account key''
   \<and> map ar_id (t_accounts (snd (CreateAccount L1 example_svc env1 revoked_db plain_request
         (Some again_request))))
       = [alice_id, ''0b0e7a52-0007-4000-8000-00000000000c'']
   \<and> store_ListAccountKeys (snd (CreateAccount L1 example_svc env1 revoked_db plain_request
         (Some again_request))) ''0b0e7a52-0007-4000-8000-00000000000c'' = Inr []"
proof -
  let ?s' = "snd (CreateAccount L1 example_svc env1 revoked_db plain_request (Some again_request))"
  have wf: "wf_db revoked_db" by code_simp
  have f: "fst (CreateAccount L1 example_svc env1 revoked_db plain_request (Some again_request))
       = writeError 500 ''failed to create account key''" by code_simp
  have ids: "map ar_id (t_accounts revoked_db) = [alice_id]"
    by (simp add: revoked_db_def session_db_def)
  have new: "map ar_id (t_accounts ?s') = [alice_id, ''0b0e7a52-0007-4000-8000-00000000000c'']"
    by code_simp
  from CreateAccount_key_insert_failure [OF wf f] obtain row where
    a: "t_accounts ?s' = t_accounts revoked_db @ [row]"
    and l: "store_ListAccountKeys ?s' (ar_id row) = Inr []"
    by blast
  from a new ids have "ar_id row = ''0b0e7a52-0007-4000-8000-00000000000c''" by simp
  with l wf f new show ?thesis by simp
qed

text \<open>
  The claim as stated fails after the session with the key revoked: the lookup of active
  keys finds nothing, the account is inserted, the insert of the key violates
  \<open>UNIQUE(algorithm, public_key)\<close>, which covers the revoked row, and the new account
  stays in the store without a key.
\<close>

theorem CreateAccount_leaves_account_without_key:
  "fst (CreateAccount L1 example_svc env1 revoked_db plain_request (Some again_request))
     = Response 500 (ErrorResponse ''failed to create account key'')
   \<and> store_GetAccount revoked_db ''0b0e7a52-0007-4000-8000-00000000000c'' = Inl ErrNoRows
   \<and> store_GetAccount
        (snd (CreateAccount L1 example_svc env1 revoked_db plain_request (Some again_request)))
        ''0b0e7a52-0007-4000-8000-00000000000c''
     = Inr (Some \<lparr>acc_ID = ''0b0e7a52-0007-4000-8000-00000000000c'', acc_DisplayName = ''alice2'',
                  acc_Bio = [], acc_HomepageURL = [],
                  acc_CreatedAt = 1700000030 * second + 600\<rparr>)
   \<and> store_ListAccountKeys
        (snd (CreateAccount L1 example_svc env1 revoked_db plain_request (Some again_request)))
        ''0b0e7a52-0007-4000-8000-00000000000c'' = Inr []"
  by code_simp
section \<open>Registering a key twice\<close>

lemma active_pair_found:
  assumes "(alg, publicKey) \<in> set (map key_pair (active_keys s))"
  shows "\<exists>k. store_GetAccountKeyByPublicKey s alg publicKey = Inr (Some k)"
proof -
  from assms obtain k where "k \<in> set (t_account_keys s)" "key_Algorithm k = alg"
    "key_PublicKey k = publicKey" "key_RevokedAt k = None"
    by (auto simp: active_keys_def key_pair_def)
  then have "find (\<lambda>k. key_Algorithm k = alg \<and> key_PublicKey k = publicKey \<and> key_RevokedAt k = None)
               (t_account_keys s) \<noteq> None"
    by (auto simp: find_None_iff)
  then show ?thesis by (auto simp: store_GetAccountKeyByPublicKey_def)
qed

lemma lookup_same_keys:
  "t_account_keys s1 = t_account_keys s \<Longrightarrow>
   store_GetAccountKeyByPublicKey s1 alg publicKey = store_GetAccountKeyByPublicKey s alg publicKey"
  by (simp add: store_GetAccountKeyByPublicKey_def)

lemma store_CreateAccountKey_row:
  assumes "store_CreateAccountKey e s k = Inr (k', s')"
  shows "s' = s\<lparr>t_account_keys := t_account_keys s @ [k'\<lparr>key_RevokedAt := None\<rparr>]\<rparr>
         \<and> key_pair k' = key_pair k
         \<and> key_pair k \<notin> set (map key_pair (t_account_keys s))"
  using assms
  by (auto simp: store_CreateAccountKey_def Let_def key_pair_def split: if_splits)

text \<open>What \<open>CreateAccount\<close> does with a pair that an active key holds.\<close>

lemma CreateAccount_bound_pair:
  assumes bound: "(car_Algorithm req, car_PublicKey req) \<in> set (map key_pair (active_keys s))"
  shows "t_account_keys (snd (CreateAccount L svc e s r (Some req))) = t_account_keys s"
    and "t_accounts (snd (CreateAccount L svc e s r (Some req))) = t_accounts s"
    and "\<forall>b. fst (CreateAccount L svc e s r (Some req)) \<noteq> Response 201 b"
    and "car_DisplayName req \<noteq> [] \<Longrightarrow> car_PublicKey req \<noteq> [] \<Longrightarrow> car_Algorithm req \<noteq> [] \<Longrightarrow>
         car_Signature req \<noteq> [] \<Longrightarrow> car_Challenge req \<noteq> [] \<Longrightarrow>
         VerifyAndCreateToken L svc e s (request_agent r req) (car_Algorithm req)
           (car_PublicKey req) (car_Challenge req) (car_Signature req) = (Inr token, s1) \<Longrightarrow>
         CreateAccount L svc e s r (Some req)
           = (writeError 409 ''public key is already registered to an account'', s1)"
proof -
  have fr: "t_accounts s1 = t_accounts s \<and> t_account_keys s1 = t_account_keys s"
    if "VerifyAndCreateToken L svc e s (request_agent r req) (car_Algorithm req)
           (car_PublicKey req) (car_Challenge req) (car_Signature req) = (res, s1)" for res s1
    using VerifyAndCreateToken_frame [of L svc e s "request_agent r req" "car_Algorithm req"
        "car_PublicKey req" "car_Challenge req" "car_Signature req"] that by simp
  have found: "\<exists>k. store_GetAccountKeyByPublicKey s1 (car_Algorithm req) (car_PublicKey req)
                    = Inr (Some k)"
    if "t_account_keys s1 = t_account_keys s" for s1
    using active_pair_found [OF bound] lookup_same_keys [OF that] by simp
  have all: "t_account_keys (snd (CreateAccount L svc e s r (Some req))) = t_account_keys s
        \<and> t_accounts (snd (CreateAccount L svc e s r (Some req))) = t_accounts s
        \<and> (\<forall>b. fst (CreateAccount L svc e s r (Some req)) \<noteq> Response 201 b)"
  proof (cases rule: CreateAccount_outcomes [of "Some req" L svc e s r])
    case (verify_failed req' er s1)
    with fr [of "Inl er" s1] show ?thesis
      by (auto simp: create_account_verify_error_def writeError_def)
  next
    case (conflict req' token s1 existingKey)
    with fr [of "Inr token" s1] show ?thesis by (auto simp: writeError_def)
  next
    case (account_failed req' token s1 er)
    with fr [of "Inr token" s1] found [of s1] show ?thesis by auto
  next
    case (key_failed req' token s1 account s2 er)
    with fr [of "Inr token" s1] found [of s1] show ?thesis by auto
  next
    case (created req' token s1 account s2 key s3)
    with fr [of "Inr token" s1] found [of s1] show ?thesis by auto
  qed (simp_all add: writeError_def)
  from all show "t_account_keys (snd (CreateAccount L svc e s r (Some req))) = t_account_keys s"
    and "t_accounts (snd (CreateAccount L svc e s r (Some req))) = t_accounts s"
    and "\<forall>b. fst (CreateAccount L svc e s r (Some req)) \<noteq> Response 201 b"
    by simp_all
  assume "car_DisplayName req \<noteq> []" "car_PublicKey req \<noteq> []" "car_Algorithm req \<noteq> []"
    "car_Signature req \<noteq> []" "car_Challenge req \<noteq> []"
    and v: "VerifyAndCreateToken L svc e s (request_agent r req) (car_Algorithm req)
           (car_PublicKey req) (car_Challenge req) (car_Signature req) = (Inr token, s1)"
  moreover from fr [OF v] found [of s1] obtain k where
    "store_GetAccountKeyByPublicKey s1 (car_Algorithm req) (car_PublicKey req) = Inr (Some k)"
    by auto
  ultimately show "CreateAccount L svc e s r (Some req)
           = (writeError 409 ''public key is already registered to an account'', s1)"
    by (simp add: CreateAccount_def)
qed

text \<open>What \<open>AddAccountKey\<close> does with a pair that an active key holds.\<close>

lemma AddAccountKey_bound_pair:
  assumes bound: "(akr_Algorithm req, akr_PublicKey req) \<in> set (map key_pair (active_keys s))"
  shows "t_account_keys (snd (AddAccountKey L svc e s r (Some req))) = t_account_keys s"
    and "t_accounts (snd (AddAccountKey L svc e s r (Some req))) = t_accounts s"
    and "\<forall>b. fst (AddAccountKey L svc e s r (Some req)) \<noteq> Response 201 b"
    and "add_key_verified L svc e s r req \<Longrightarrow>
         fst (AddAccountKey L svc e s r (Some req))
           = writeError 409 ''public key is already registered''"
proof -
  have fr: "t_accounts s1 = t_accounts s \<and> t_account_keys s1 = t_account_keys s"
    if "VerifyAndCreateToken L svc e s a (akr_Algorithm req)
           (akr_PublicKey req) (akr_Challenge req) (akr_Signature req) = (res, s1)" for res s1 a
    using VerifyAndCreateToken_frame [of L svc e s a "akr_Algorithm req"
        "akr_PublicKey req" "akr_Challenge req" "akr_Signature req"] that by simp
  have found: "\<exists>k. store_GetAccountKeyByPublicKey s1 (akr_Algorithm req) (akr_PublicKey req)
                    = Inr (Some k)"
    if "t_account_keys s1 = t_account_keys s" for s1
    using active_pair_found [OF bound] lookup_same_keys [OF that] by simp
  have all: "t_account_keys (snd (AddAccountKey L svc e s r (Some req))) = t_account_keys s
        \<and> t_accounts (snd (AddAccountKey L svc e s r (Some req))) = t_accounts s
        \<and> (\<forall>b. fst (AddAccountKey L svc e s r (Some req)) \<noteq> Response 201 b)"
  proof (cases rule: AddAccountKey_outcomes [of r L svc e s "Some req"])
    case (verify_failed token req' er s1)
    with fr [of "tok_AgentID token" "Inl er" s1] show ?thesis
      by (auto simp: writeError_def)
  next
    case (conflict token req' newToken s1 existingKey)
    with fr [of "tok_AgentID token" "Inr newToken" s1] show ?thesis by (auto simp: writeError_def)
  next
    case (key_failed token req' newToken s1 er)
    with fr [of "tok_AgentID token" "Inr newToken" s1] found [of s1] show ?thesis by auto
  next
    case (created token req' newToken s1 key s2)
    with fr [of "tok_AgentID token" "Inr newToken" s1] found [of s1] show ?thesis by auto
  qed (simp_all add: writeError_def)
  from all show "t_account_keys (snd (AddAccountKey L svc e s r (Some req))) = t_account_keys s"
    and "t_accounts (snd (AddAccountKey L svc e s r (Some req))) = t_accounts s"
    and "\<forall>b. fst (AddAccountKey L svc e s r (Some req)) \<noteq> Response 201 b"
    by simp_all
  assume ok: "add_key_verified L svc e s r req"
  then obtain account where acc: "store_GetAccount s (path_id r) = Inr (Some account)"
    by (cases "find (\<lambda>x. ar_id x = path_id r) (t_accounts s)")
      (auto simp: add_key_verified_def store_GetAccount_def)
  from ok obtain token where tok: "validateToken e s r = Inr (Some token)"
    by (auto simp: add_key_verified_def split: sum.splits option.splits)
  with ok have own: "tok_AccountID token = path_id r" "path_id r \<noteq> []"
    and fields: "akr_PublicKey req \<noteq> []" "akr_Algorithm req \<noteq> []" "akr_Signature req \<noteq> []"
      "akr_Challenge req \<noteq> []"
    by (simp_all add: add_key_verified_def)
  from ok tok obtain newToken s1 where
    v: "VerifyAndCreateToken L svc e s (tok_AgentID token) (akr_Algorithm req)
           (akr_PublicKey req) (akr_Challenge req) (akr_Signature req) = (Inr newToken, s1)"
    by (cases "VerifyAndCreateToken L svc e s (tok_AgentID token) (akr_Algorithm req)
           (akr_PublicKey req) (akr_Challenge req) (akr_Signature req)")
      (auto simp: add_key_verified_def split: sum.splits)
  from fr [OF v] found [of s1] obtain k where
    "store_GetAccountKeyByPublicKey s1 (akr_Algorithm req) (akr_PublicKey req) = Inr (Some k)"
    by auto
  with acc tok own fields v show "fst (AddAccountKey L svc e s r (Some req))
           = writeError 409 ''public key is already registered''"
    by (simp add: AddAccountKey_def)
qed

text \<open>A registration that succeeds is of a pair that no key row held, and binds it.\<close>

lemma CreateAccount_created:
  assumes "fst (CreateAccount L svc e s r (Some req)) = Response 201 b"
  shows "(car_Algorithm req, car_PublicKey req) \<notin> set (map key_pair (t_account_keys s))
         \<and> (car_Algorithm req, car_PublicKey req)
             \<in> set (map key_pair (active_keys (snd (CreateAccount L svc e s r (Some req)))))"
proof (cases rule: CreateAccount_outcomes [of "Some req" L svc e s r])
  case (created req' token s1 account s2 key s3)
  then have req: "req' = req" by simp
  have fr: "t_account_keys s1 = t_account_keys s"
    using VerifyAndCreateToken_frame [of L svc e s "request_agent r req" "car_Algorithm req"
        "car_PublicKey req" "car_Challenge req" "car_Signature req"] created(2) req
    by simp
  from store_CreateAccount_row [OF created(4)] fr have k2: "t_account_keys s2 = t_account_keys s"
    by simp
  from store_CreateAccountKey_row [OF created(5)] k2 req created(6) show ?thesis
    by (auto simp: key_pair_def request_key_def active_keys_def)
qed (use assms in \<open>auto simp: writeError_def create_account_verify_error_def split: if_splits\<close>)

lemma AddAccountKey_created:
  assumes "fst (AddAccountKey L svc e s r (Some req)) = Response 201 b"
  shows "(akr_Algorithm req, akr_PublicKey req) \<notin> set (map key_pair (t_account_keys s))
         \<and> (akr_Algorithm req, akr_PublicKey req)
             \<in> set (map key_pair (active_keys (snd (AddAccountKey L svc e s r (Some req)))))"
proof (cases rule: AddAccountKey_outcomes [of r L svc e s "Some req"])
  case (created token req' newToken s1 key s2)
  then have req: "req' = req" by simp
  have fr: "t_account_keys s1 = t_account_keys s"
    using VerifyAndCreateToken_frame [of L svc e s "tok_AgentID token" "akr_Algorithm req"
        "akr_PublicKey req" "akr_Challenge req" "akr_Signature req"] created(4) req
    by simp
  from store_CreateAccountKey_row [OF created(6)] fr req created(7) show ?thesis
    by (auto simp: key_pair_def request_key_def active_keys_def)
qed (use assms in \<open>auto simp: writeError_def split: if_splits\<close>)

text \<open>
  C2. After every sequence of operations no two active keys share \<open>(algorithm,
  public_key)\<close>. A request to create an account, or to add a key, with a pair that an
  active key holds never succeeds and adds no key row; once it has passed the tests that
  precede the lookup of the key (fields present, for \<open>AddAccountKey\<close> authentication and
  ownership, and the verification of its challenge) the answer is 409 Conflict. A
  registration that succeeds is of a pair that no key row held before, and it binds the
  pair to an active key, so that every later registration of the pair meets the conflict.
\<close>

theorem key_registration_unique:
  assumes "s = run L svc ops"
  shows "distinct (map key_pair (active_keys s))
    \<and> ((car_Algorithm creq, car_PublicKey creq) \<in> set (map key_pair (active_keys s)) \<longrightarrow>
         t_account_keys (snd (CreateAccount L svc e s r (Some creq))) = t_account_keys s
         \<and> (\<forall>b. fst (CreateAccount L svc e s r (Some creq)) \<noteq> Response 201 b)
         \<and> (create_account_verified L svc e s r creq \<longrightarrow>
              fst (CreateAccount L svc e s r (Some creq))
                = writeError 409 ''public key is already registered to an account''))
    \<and> ((akr_Algorithm kreq, akr_PublicKey kreq) \<in> set (map key_pair (active_keys s)) \<longrightarrow>
         t_account_keys (snd (AddAccountKey L svc e s r (Some kreq))) = t_account_keys s
         \<and> (\<forall>b. fst (AddAccountKey L svc e s r (Some kreq)) \<noteq> Response 201 b)
         \<and> (add_key_verified L svc e s r kreq \<longrightarrow>
              fst (AddAccountKey L svc e s r (Some kreq))
                = writeError 409 ''public key is already registered''))
    \<and> (\<forall>b. fst (CreateAccount L svc e s r (Some creq)) = Response 201 b \<longrightarrow>
         (car_Algorithm creq, car_PublicKey creq) \<notin> set (map key_pair (t_account_keys s))
         \<and> (car_Algorithm creq, car_PublicKey creq)
             \<in> set (map key_pair (active_keys (snd (CreateAccount L svc e s r (Some creq))))))
    \<and> (\<forall>b. fst (AddAccountKey L svc e s r (Some kreq)) = Response 201 b \<longrightarrow>
         (akr_Algorithm kreq, akr_PublicKey kreq) \<notin> set (map key_pair (t_account_keys s))
         \<and> (akr_Algorithm kreq, akr_PublicKey kreq)
             \<in> set (map key_pair (active_keys (snd (AddAccountKey L svc e s r (Some kreq))))))"
proof -
  have "db_inv s" unfolding assms by (rule run_inv)
  then have "distinct (map key_pair (t_account_keys s))" by (simp add: db_inv_def wf_db_def)
  then have a: "distinct (map key_pair (active_keys s))"
    unfolding active_keys_def by (rule distinct_map_filter)
  have b: "fst (CreateAccount L svc e s r (Some creq))
                = writeError 409 ''public key is already registered to an account''"
    if bound: "(car_Algorithm creq, car_PublicKey creq) \<in> set (map key_pair (active_keys s))"
      and ok: "create_account_verified L svc e s r creq"
  proof -
    from ok obtain token s1 where
      "VerifyAndCreateToken L svc e s (request_agent r creq) (car_Algorithm creq)
           (car_PublicKey creq) (car_Challenge creq) (car_Signature creq) = (Inr token, s1)"
      by (cases "VerifyAndCreateToken L svc e s (request_agent r creq) (car_Algorithm creq)
           (car_PublicKey creq) (car_Challenge creq) (car_Signature creq)")
        (auto simp: create_account_verified_def split: sum.splits)
    with ok CreateAccount_bound_pair(4) [OF bound, of L svc e r token s1] show ?thesis
      by (simp add: create_account_verified_def)
  qed
  show ?thesis
    using a b CreateAccount_bound_pair(1,3) [of creq s L svc e r]
      AddAccountKey_bound_pair(1,3,4) [of kreq s L svc e r]
      CreateAccount_created [of L svc e s r creq] AddAccountKey_created [of L svc e s r kreq]
    by blast
qed

theorem key_registration_unique_witness:
  "map key_pair (active_keys session_db) = [(''ed25519'', pk1)]
   \<and> create_account_verified L1 example_svc env1 session_db plain_request again_request
   \<and> fst (CreateAccount L1 example_svc env1 session_db plain_request (Some again_request))
       = writeError 409 ''public key is already registered to an account''
   \<and> add_key_verified L1 example_svc env1 session_db (bearer_request token2 alice_id [])
         again_key_request
   \<and> fst (AddAccountKey L1 example_svc env1 session_db (bearer_request token2 alice_id [])
            (Some again_key_request))
       = writeError 409 ''public key is already registered''"
proof -
  let ?r = "bearer_request token2 alice_id []"
  have act: "map key_pair (active_keys session_db) = [(''ed25519'', pk1)]" by code_simp
  have c: "(car_Algorithm again_request, car_PublicKey again_request)
             \<in> set (map key_pair (active_keys session_db))"
    unfolding act by (simp add: again_request_def)
  have k: "(akr_Algorithm again_key_request, akr_PublicKey again_key_request)
             \<in> set (map key_pair (active_keys session_db))"
    unfolding act by (simp add: again_key_request_def)
  have cv: "create_account_verified L1 example_svc env1 session_db plain_request again_request"
    by code_simp
  have kv: "add_key_verified L1 example_svc env1 session_db ?r again_key_request"
    by code_simp
  from key_registration_unique [OF session_db_reachable [symmetric],
      of again_request env1 plain_request again_key_request] c cv
  have x: "fst (CreateAccount L1 example_svc env1 session_db plain_request (Some again_request))
       = writeError 409 ''public key is already registered to an account''"
    by blast
  from key_registration_unique [OF session_db_reachable [symmetric],
      of again_request env1 ?r again_key_request] k kv
  have y: "fst (AddAccountKey L1 example_svc env1 session_db ?r (Some again_key_request))
       = writeError 409 ''public key is already registered''"
    by blast
  from act cv x kv y show ?thesis by blast
qed
section \<open>Malformed signatures\<close>

lemma verifySignature_malformed:
  assumes "public_key_accepted L alg publicKeyStr" "base64_StdDecode L signatureStr = None"
  shows "verifySignature L alg publicKeyStr message signatureStr = Inl ErrInvalidSignature"
proof (cases "alg = AlgEd25519")
  case True
  with assms(1) obtain b where "base64_StdDecode L publicKeyStr = Some b" "length b = 32"
    by (cases "base64_StdDecode L publicKeyStr") (simp_all add: public_key_accepted_def)
  with True assms(2) show ?thesis
    by (simp add: verifySignature_def verifyEd25519_def)
next
  case False
  with assms(1) have rsa: "alg = AlgRSAPSS \<or> alg = AlgRSASHA256"
    by (simp add: public_key_accepted_def split: if_splits)
  with False assms(1) obtain k where k: "parseRSAPublicKey L publicKeyStr = Inr k"
    by (cases "parseRSAPublicKey L publicKeyStr") (simp_all add: public_key_accepted_def)
  show ?thesis
  proof (cases "alg = AlgRSAPSS")
    case True
    with False k assms(2) show ?thesis
      by (simp add: verifySignature_def verifyRSAPSS_def)
  next
    case no_pss: False
    with rsa have "alg = AlgRSASHA256" by simp
    with False no_pss k assms(2) show ?thesis
      by (simp add: verifySignature_def verifyRSASHA256_def)
  qed
qed

lemma VerifyAndCreateToken_rejected:
  assumes "store_GetChallenge e s challengeStr = Inr (Some c)"
    "\<not> now_check e > ch_ExpiresAt c" "ch_AgentID c = agentID" "ch_Algorithm c = alg"
    "verifySignature L alg publicKey challengeStr signature = Inr False
     \<or> verifySignature L alg publicKey challengeStr signature = Inl ErrInvalidSignature"
  shows "VerifyAndCreateToken L svc e s agentID alg publicKey challengeStr signature
           = (Inl ErrInvalidSignature, s)"
  using assms by (auto simp: VerifyAndCreateToken_def)

text \<open>
  C6, as the code has it. The auth package has no error for a malformed signature of its
  own. For ed25519, rsa-pss and rsa-sha256, with a public key that is accepted, a
  signature string that does not decode as standard base64 makes \<open>verifySignature\<close> fail
  with \<open>ErrInvalidSignature\<close>, and \<open>VerifyAndCreateToken\<close> returns that same error, for
  this signature and for one that decodes and does not verify.
\<close>

theorem malformed_signature_is_invalid_signature:
  assumes "public_key_accepted L alg publicKeyStr" "base64_StdDecode L signatureStr = None"
  shows "verifySignature L alg publicKeyStr message signatureStr = Inl ErrInvalidSignature
         \<and> (\<forall>c. store_GetChallenge e s message = Inr (Some c) \<and> \<not> now_check e > ch_ExpiresAt c
                  \<and> ch_AgentID c = agentID \<and> ch_Algorithm c = alg \<longrightarrow>
                VerifyAndCreateToken L svc e s agentID alg publicKeyStr message signatureStr
                  = (Inl ErrInvalidSignature, s)
                \<and> (verifySignature L alg publicKeyStr message otherSignature = Inr False \<longrightarrow>
                     VerifyAndCreateToken L svc e s agentID alg publicKeyStr message otherSignature
                       = (Inl ErrInvalidSignature, s)))"
  using verifySignature_malformed [OF assms, of message]
    VerifyAndCreateToken_rejected [of e s message _ agentID alg L publicKeyStr _ svc]
  by auto

theorem malformed_signature_is_invalid_signature_witness:
  "public_key_accepted L1 ''ed25519'' pk1
   \<and> base64_StdDecode L1 ''@@@@'' = None
   \<and> verifySignature L1 ''ed25519'' pk1 challenge3 ''@@@@'' = Inl ErrInvalidSignature
   \<and> VerifyAndCreateToken L1 example_svc env1 session_db ''a1'' ''ed25519'' pk1 challenge3 ''@@@@''
       = (Inl ErrInvalidSignature, session_db)"
proof -
  let ?c = "\<lparr>ch_ID = ''0b0e7a52-0005-4000-8000-00000000000a'', ch_AgentID = ''a1'',
             ch_Algorithm = ''ed25519'', ch_Challenge = challenge3,
             ch_ExpiresAt = 1700000320 * second\<rparr>"
  have p: "public_key_accepted L1 ''ed25519'' pk1" by code_simp
  have d: "base64_StdDecode L1 ''@@@@'' = None" by code_simp
  have g: "store_GetChallenge env1 session_db challenge3 = Inr (Some ?c)" by code_simp
  have n: "\<not> now_check env1 > ch_ExpiresAt ?c" by code_simp
  from malformed_signature_is_invalid_signature [OF p d, of challenge3 env1 session_db
      "''a1''" example_svc] g n
  have "verifySignature L1 ''ed25519'' pk1 challenge3 ''@@@@'' = Inl ErrInvalidSignature
        \<and> VerifyAndCreateToken L1 example_svc env1 session_db ''a1'' ''ed25519'' pk1 challenge3
             ''@@@@'' = (Inl ErrInvalidSignature, session_db)"
    by simp
  with p d show ?thesis by simp
qed

text \<open>
  The claim as stated fails: a signature that is not base64 gets \<open>ErrInvalidSignature\<close>,
  the error that a well-formed, wrong signature gets (the second string is the one the
  repository's own test uses as a wrong signature; it decodes to twelve bytes).
\<close>

theorem malformed_and_wrong_signature_same_error:
  "StdEncoding_DecodeString ''not base64!'' = None
   \<and> verifySignature L1 ''ed25519'' pk1 challenge3 ''not base64!'' = Inl ErrInvalidSignature
   \<and> fst (VerifyAndCreateToken L1 example_svc env1 session_db ''a1'' ''ed25519'' pk1 challenge3
            ''not base64!'') = Inl ErrInvalidSignature
   \<and> StdEncoding_DecodeString ''invalidsignature''
       = Some [138, 123, 218, 150, 39, 108, 138, 9, 218, 182, 234, 222]
   \<and> fst (VerifyAndCreateToken L1 example_svc env1 session_db ''a1'' ''ed25519'' pk1 challenge3
            ''invalidsignature'') = Inl ErrInvalidSignature"
  by code_simp
section \<open>A challenge verifies once\<close>

lemma CreateChallenge_row:
  assumes "CreateChallenge L svc e0 s agentID alg = (Inr c, s1)"
  shows "s1 = s\<lparr>t_challenges := t_challenges s @
                 [\<lparr>cr_id = ch_ID c, cr_agent_id = agentID, cr_algorithm = alg,
                   cr_challenge = ch_Challenge c,
                   cr_expires_at = sqlite_datetime (ch_ExpiresAt c)\<rparr>]\<rparr>"
    and "ch_ID c \<notin> set (map cr_id (t_challenges s))"
    and "ch_Challenge c \<notin> set (map cr_challenge (t_challenges s))"
    and "ch_AgentID c = agentID" and "ch_Algorithm c = alg" and "isValidAlgorithm alg"
  using assms
  by (auto simp: CreateChallenge_def store_CreateChallenge_def Let_def
      split: if_splits option.splits)

lemma filter_fresh_id:
  assumes "i \<notin> set (map cr_id xs)"
  shows "filter (\<lambda>r. cr_id r \<noteq> i) xs = xs"
  using assms by (induction xs) auto

text \<open>
  A challenge that has just been created, verified with a signature that the verifier
  accepts while the challenge is live, is deleted before the token is made: what remains
  of the call is \<open>issue_token\<close> on the state before the challenge was created.
\<close>

lemma verify_fresh_challenge:
  assumes create: "CreateChallenge L svc e0 s agentID alg = (Inr c, s1)"
    and live: "sql_now_challenge e1 < scan_datetime (sqlite_datetime (ch_ExpiresAt c))"
      "\<not> scan_datetime (sqlite_datetime (ch_ExpiresAt c)) < now_check e1"
    and valid: "verifySignature L alg publicKey (ch_Challenge c) signature = Inr True"
  shows "VerifyAndCreateToken L svc e1 s1 agentID alg publicKey (ch_Challenge c) signature
           = issue_token L svc e1 s agentID alg publicKey"
proof -
  let ?row = "\<lparr>cr_id = ch_ID c, cr_agent_id = agentID, cr_algorithm = alg,
                cr_challenge = ch_Challenge c,
                cr_expires_at = sqlite_datetime (ch_ExpiresAt c)\<rparr>"
  let ?P = "\<lambda>r. cr_challenge r = ch_Challenge c
                \<and> sqlite_datetime (sql_now_challenge e1) < cr_expires_at r"
  note row = CreateChallenge_row [OF create]
  from row(3) have "\<forall>y \<in> set (t_challenges s). \<not> ?P y" by (metis image_eqI set_map)
  moreover have "?P ?row" using live(1) by (simp add: sqlite_datetime_less_iff)
  ultimately have "find ?P (t_challenges s @ [?row]) = Some ?row" by (rule find_append_fresh)
  then have get: "store_GetChallenge e1 s1 (ch_Challenge c) = Inr (Some (challenge_of_row ?row))"
    by (simp add: store_GetChallenge_def row(1))
  have del: "store_DeleteChallenge s1 (ch_ID c) = Inr s"
    using filter_fresh_id [OF row(2)] by (simp add: store_DeleteChallenge_def row(1))
  show ?thesis
    using get del live(2) valid
    by (simp add: VerifyAndCreateToken_def challenge_of_row_def)
qed

lemma issue_token_success:
  assumes "rand_read e = Some tokenBytes"
    and "uuid_svc e \<noteq> []" "uuid_svc e \<notin> set (map tr_id (t_tokens s))"
    and "base64_URLEncode L tokenBytes \<notin> set (map tr_token (t_tokens s))"
    and "16 \<le> length publicKey \<or> store_GetAccountKeyByPublicKey s alg publicKey \<noteq> Inr None"
  shows "\<exists>t s'. issue_token L svc e s agentID alg publicKey = (Inr t, s')
           \<and> tok_AgentID t = agentID \<and> tok_Token t = base64_URLEncode L tokenBytes
           \<and> tok_ExpiresAt t = now_issue e + tokenTTL svc"
proof (cases "find (\<lambda>k. key_Algorithm k = alg \<and> key_PublicKey k = publicKey \<and> key_RevokedAt k = None)
                (t_account_keys s)")
  case None
  with assms(5) have "16 \<le> length publicKey" by (simp add: store_GetAccountKeyByPublicKey_def)
  with None assms(1,2,3,4) show ?thesis
    by (simp add: issue_token_def store_GetAccountKeyByPublicKey_def store_CreateToken_def
        new_token_def Let_def)
next
  case (Some k)
  with assms(1,2,3,4) show ?thesis
    by (simp add: issue_token_def store_GetAccountKeyByPublicKey_def store_CreateToken_def
        new_token_def Let_def)
qed

text \<open>
  Single use, for every algorithm whose verifier can accept a signature: a challenge
  just created and verified with an accepted signature, while it is
  live, is consumed, since every later verification with its string fails with
  \<open>ErrChallengeNotFound\<close>, whatever else the later call passes; and the first verification
  issues a token when the random source answers, the token's id and string are new, and
  the key string has the sixteen characters the id of an unregistered key is cut from.
\<close>

lemma challenge_single_use:
  assumes create: "CreateChallenge L svc e0 s agentID alg = (Inr c, s1)"
    and live: "sql_now_challenge e1 < scan_datetime (sqlite_datetime (ch_ExpiresAt c))"
      "\<not> scan_datetime (sqlite_datetime (ch_ExpiresAt c)) < now_check e1"
    and valid: "verifySignature L alg publicKey (ch_Challenge c) signature = Inr True"
    and first: "VerifyAndCreateToken L svc e1 s1 agentID alg publicKey (ch_Challenge c) signature
                  = (res, s2)"
  shows "VerifyAndCreateToken L svc e2 s2 agentID' alg' publicKey' (ch_Challenge c) signature'
           = (Inl ErrChallengeNotFound, s2)"
    and "rand_read e1 = Some tokenBytes \<Longrightarrow>
         uuid_svc e1 \<noteq> [] \<Longrightarrow> uuid_svc e1 \<notin> set (map tr_id (t_tokens s)) \<Longrightarrow>
         base64_URLEncode L tokenBytes \<notin> set (map tr_token (t_tokens s)) \<Longrightarrow>
         16 \<le> length publicKey \<or> store_GetAccountKeyByPublicKey s alg publicKey \<noteq> Inr None \<Longrightarrow>
         \<exists>t. res = Inr t \<and> tok_AgentID t = agentID \<and> tok_Token t = base64_URLEncode L tokenBytes"
proof -
  have eq: "issue_token L svc e1 s agentID alg publicKey = (res, s2)"
    using verify_fresh_challenge [OF create live valid] first by simp
  then have "t_challenges s2 = t_challenges s"
    using issue_token_frame(3) [of L svc e1 s agentID alg publicKey] by simp
  moreover from CreateChallenge_row(3) [OF create]
  have "find (\<lambda>r. cr_challenge r = ch_Challenge c
                  \<and> sqlite_datetime (sql_now_challenge e2) < cr_expires_at r) (t_challenges s) = None"
    by (simp add: find_absent)
  ultimately show "VerifyAndCreateToken L svc e2 s2 agentID' alg' publicKey' (ch_Challenge c)
      signature' = (Inl ErrChallengeNotFound, s2)"
    by (simp add: VerifyAndCreateToken_def store_GetChallenge_def)
  assume "rand_read e1 = Some tokenBytes"
    "uuid_svc e1 \<noteq> []" "uuid_svc e1 \<notin> set (map tr_id (t_tokens s))"
    "base64_URLEncode L tokenBytes \<notin> set (map tr_token (t_tokens s))"
    "16 \<le> length publicKey \<or> store_GetAccountKeyByPublicKey s alg publicKey \<noteq> Inr None"
  from issue_token_success [OF this, of svc agentID] eq
  show "\<exists>t. res = Inr t \<and> tok_AgentID t = agentID \<and> tok_Token t = base64_URLEncode L tokenBytes"
    by auto
qed

text \<open>The example session's first two steps, as one instance.\<close>

lemma challenge_single_use_example:
  "fst (VerifyAndCreateToken L1 example_svc (env_at 1700000005 ''0002'' rnd2)
         (snd (CreateChallenge L1 example_svc (env_at 1700000000 ''0001'' rnd1) empty_db ''a1''
                 ''ed25519''))
         ''a1'' ''ed25519'' pk1 challenge1 sig1)
     = Inr \<lparr>tok_ID = ''0b0e7a52-0002-4000-8000-00000000000a'', tok_AccountID = [],
            tok_KeyID = ''unregistered:AQIDBAUGBwgJCgsM'', tok_AgentID = ''a1'',
            tok_Token = token1, tok_ExpiresAt = 1700086405 * second + 500\<rparr>
   \<and> fst (VerifyAndCreateToken L1 example_svc (env_at 1700000006 ''0008'' rnd6)
         (snd (VerifyAndCreateToken L1 example_svc (env_at 1700000005 ''0002'' rnd2)
           (snd (CreateChallenge L1 example_svc (env_at 1700000000 ''0001'' rnd1) empty_db ''a1''
                   ''ed25519''))
           ''a1'' ''ed25519'' pk1 challenge1 sig1))
         ''a1'' ''ed25519'' pk1 challenge1 sig1)
     = Inl ErrChallengeNotFound"
  by code_simp

text \<open>No token is ever issued for a secp256k1 challenge.\<close>

lemma VerifyAndCreateToken_secp256k1:
  "\<exists>er. VerifyAndCreateToken L svc e s agentID AlgSecp256k1 publicKey challengeStr signature
          = (Inl er, s)"
proof -
  have v: "verifySignature L AlgSecp256k1 publicKey challengeStr signature
             = Inl ErrSecp256k1NotImplemented"
    by (simp add: verifySignature_def AlgSecp256k1_def AlgEd25519_def AlgRSAPSS_def
        AlgRSASHA256_def)
  show ?thesis
    by (cases "find (\<lambda>r. cr_challenge r = challengeStr
                      \<and> cr_expires_at r > sqlite_datetime (sql_now_challenge e)) (t_challenges s)")
      (simp_all add: VerifyAndCreateToken_def store_GetChallenge_def v)
qed

text \<open>
  C1 at the input where the code fails it. secp256k1 is a valid algorithm, so a challenge
  is created for it; the verification that follows at once returns the error of the
  unfinished secp256k1 case whatever key and signature are sent, no token is issued and
  the challenge stays in the store. \<open>CreateAccount\<close> answers this error with 500. For the
  three algorithms whose verifier is written the claim holds (\<open>challenge_single_use\<close>).
\<close>

theorem secp256k1_challenge_cannot_be_verified:
  "isValidAlgorithm ''secp256k1''
   \<and> fst (CreateChallenge L1 example_svc (env_at 1700000000 ''0001'' rnd1) empty_db ''a1''
            ''secp256k1'')
       = Inr \<lparr>ch_ID = ''0b0e7a52-0001-4000-8000-00000000000a'', ch_AgentID = ''a1'',
              ch_Algorithm = ''secp256k1'', ch_Challenge = challenge1,
              ch_ExpiresAt = 1700000300 * second + 500\<rparr>
   \<and> VerifyAndCreateToken L1 example_svc (env_at 1700000005 ''0002'' rnd2)
         (snd (CreateChallenge L1 example_svc (env_at 1700000000 ''0001'' rnd1) empty_db ''a1''
                 ''secp256k1''))
         ''a1'' ''secp256k1'' secp_pk challenge1 secp_sig
       = (Inl ErrSecp256k1NotImplemented,
          snd (CreateChallenge L1 example_svc (env_at 1700000000 ''0001'' rnd1) empty_db ''a1''
                 ''secp256k1''))
   \<and> create_account_verify_error ErrSecp256k1NotImplemented
       = Response 500 (ErrorResponse ''verification failed'')"
  by code_simp

theorem secp256k1_challenge_cannot_be_verified_witness:
  "fst (VerifyAndCreateToken L1 example_svc (env_at 1700000005 ''0002'' rnd2)
         (snd (CreateChallenge L1 example_svc (env_at 1700000000 ''0001'' rnd1) empty_db ''a1''
                 ''secp256k1''))
         ''a1'' ''secp256k1'' secp_pk challenge1 secp_sig)
     = Inl ErrSecp256k1NotImplemented"
  using secp256k1_challenge_cannot_be_verified by simp

end
